theory Spec2Isabelle
  imports Main "HOL-Library.Word"
begin

unbundle bit_operations_syntax

section \<open>Diagnostics, results and the injected allocator\<close>

text \<open>
  The containers report a violated precondition through the \<^verbatim>\<open>Check\<close> macro, a fatal
  assertion. A failed \<^verbatim>\<open>Check\<close> is the result \<open>Inl CheckFailed\<close>. A read or write
  outside the allocation, or a read of storage that holds no constructed object, is
  undefined behaviour in C++; the model stops there with \<open>Inl InvalidAccess\<close>. A function
  whose instantiation names a member that its class does not declare is ill-formed: no
  program can call it, and its model has the result \<open>Inl IllFormed\<close> on every input.
\<close>

datatype error = CheckFailed | InvalidAccess | IllFormed

type_synonym uint32 = "32 word"
type_synonym uint8 = "8 word"

text \<open>
  The allocator (\<^verbatim>\<open>HAL/Allocators/AnsiAllocator.h\<close>) is not part of the sources. Its two
  growth policies and its two capability flags are taken as parameters. Its size type
  \<^verbatim>\<open>FSizeType\<close> is a signed integer type of unknown width, on which overflow is undefined
  in C++; the model uses \<open>int\<close>. Storage handed out by the allocator is not initialised:
  for the word buffer of the bit array the content of fresh storage is the parameter
  \<open>FreshDword\<close> (indexed by position), for element slots it is \<open>None\<close>.
\<close>

record FAllocator =
  CalculateSlackGrow :: "int \<Rightarrow> int \<Rightarrow> int \<Rightarrow> int"
  CalculateSlackShrink :: "int \<Rightarrow> int \<Rightarrow> int \<Rightarrow> int"
  RequireRangeCheck :: bool
  SupportsMove :: bool
  FreshDword :: "nat \<Rightarrow> uint32"

text \<open>
  Modelled from the spec: \<^verbatim>\<open>FAllocator::ResizeAllocation\<close> is missing from the sources. The
  spec: "a resize-allocation operation parameterized by (old element count, new element
  count, element size in bytes) that preserves existing bytes up to the minimum of old/new
  sizes". The new allocation has \<open>NumElements\<close> slots; the first
  \<open>min PreviousNumElements NumElements\<close> keep their content, the others are fresh.
\<close>

definition ResizeAllocation :: "(nat \<Rightarrow> 's) \<Rightarrow> 's list \<Rightarrow> nat \<Rightarrow> nat \<Rightarrow> 's list" where
  "ResizeAllocation fresh Data PreviousNumElements NumElements =
     map (\<lambda>i. if i < min PreviousNumElements NumElements \<and> i < length Data
               then Data ! i else fresh i)
       [0..<NumElements]"

section \<open>Platform math\<close>

text \<open>
  \<^verbatim>\<open>__builtin_clz\<close> and \<^verbatim>\<open>__builtin_ctz\<close> on a 32-bit value: the number of zero bits
  above the highest set bit, and below the lowest set bit. \<open>zeros_below v n\<close> counts the
  zero bits directly below position \<open>n\<close>; \<open>zeros_from v i k\<close> counts the zero bits from
  position \<open>i\<close> upwards, looking at \<open>k\<close> positions at most.
\<close>

primrec zeros_below :: "uint32 \<Rightarrow> nat \<Rightarrow> nat" where
  "zeros_below v 0 = 0"
| "zeros_below v (Suc n) = (if bit v n then 0 else Suc (zeros_below v n))"

primrec zeros_from :: "uint32 \<Rightarrow> nat \<Rightarrow> nat \<Rightarrow> nat" where
  "zeros_from v i 0 = 0"
| "zeros_from v i (Suc k) = (if bit v i then 0 else Suc (zeros_from v (Suc i) k))"

definition builtin_clz :: "uint32 \<Rightarrow> nat" where
  "builtin_clz v = zeros_below v 32"

definition builtin_ctz :: "uint32 \<Rightarrow> nat" where
  "builtin_ctz v = zeros_from v 0 32"

definition CountLeadingZeros :: "uint32 \<Rightarrow> uint32" where
  "CountLeadingZeros Value = (if Value = 0 then 32 else of_nat (builtin_clz Value))"

definition CountTrailingZeros :: "uint32 \<Rightarrow> uint32" where
  "CountTrailingZeros Value = (if Value = 0 then 32 else of_nat (builtin_ctz Value))"

text \<open>
  Modelled from the spec: \<^verbatim>\<open>FMath::DivideAndRoundUp\<close> (\<^verbatim>\<open>Math/MathUtility.h\<close>) is missing
  from the sources; the spec names it "division rounding". It is the quotient rounded up,
  computed in the operand type \<^verbatim>\<open>uint32\<close>.
\<close>

definition DivideAndRoundUp :: "uint32 \<Rightarrow> uint32 \<Rightarrow> uint32" where
  "DivideAndRoundUp Dividend Divisor = (Dividend + Divisor - 1) div Divisor"

section \<open>TBitArray\<close>

definition NUM_BITS_PER_DWORD :: uint32 where
  "NUM_BITS_PER_DWORD = 32"

definition NUM_BITS_PER_DWORD_LOG_TWO :: nat where
  "NUM_BITS_PER_DWORD_LOG_TWO = 5"

text \<open>
  The state of a bit array: the word buffer of its allocator instance, \<open>NumBits\<close> and
  \<open>MaxBits\<close>. \<open>GetData\<close> of the source returns the buffer. The member functions
  of \<^verbatim>\<open>TBitArray\<close> carry the prefix \<open>TBitArray_\<close>, those of \<^verbatim>\<open>TArray\<close> the prefix
  \<open>TArray_\<close>; the two operator names are spelled out (\<open>operator_index\<close>,
  \<open>operator_assign\<close>, \<open>operator_eq\<close>).
\<close>

record TBitArray =
  BitAllocatorInstance :: "uint32 list"
  NumBits :: uint32
  MaxBits :: uint32

definition TBitArray_GetData :: "TBitArray \<Rightarrow> uint32 list" where
  "TBitArray_GetData arr = BitAllocatorInstance arr"

definition TBitArray_Num :: "TBitArray \<Rightarrow> uint32" where
  "TBitArray_Num arr = NumBits arr"

subsection \<open>Memory primitives on the word buffer\<close>

text \<open>
  \<^verbatim>\<open>FMemory::Memset\<close>, \<^verbatim>\<open>Memzero\<close> and \<^verbatim>\<open>Memcpy\<close> are called with whole numbers of words;
  the counts below are in words. A range outside the buffer is an invalid access.
\<close>

definition Memset :: "uint32 list \<Rightarrow> nat \<Rightarrow> uint8 \<Rightarrow> nat \<Rightarrow> error + uint32 list" where
  "Memset Data Offset Value NumDwords =
     (if Offset + NumDwords \<le> length Data
      then Inr (take Offset Data @ replicate NumDwords (ucast Value * 0x01010101)
                @ drop (Offset + NumDwords) Data)
      else Inl InvalidAccess)"

definition Memzero :: "uint32 list \<Rightarrow> nat \<Rightarrow> nat \<Rightarrow> error + uint32 list" where
  "Memzero Data Offset NumDwords = Memset Data Offset 0 NumDwords"

definition Memcpy :: "'s list \<Rightarrow> 's list \<Rightarrow> nat \<Rightarrow> error + 's list" where
  "Memcpy Dest Src Count =
     (if Count \<le> length Dest \<and> Count \<le> length Src
      then Inr (take Count Src @ drop Count Dest)
      else Inl InvalidAccess)"

subsection \<open>Bit references and iterators\<close>

text \<open>
  An \<^verbatim>\<open>FBitReference\<close> binds a word of the buffer (here: its index) and a mask.
  \<open>BitReference_read\<close> is its \<^verbatim>\<open>operator bool\<close>, \<open>BitReference_assign\<close> its
  \<^verbatim>\<open>operator=(bool)\<close>.
\<close>

definition BitReference_read :: "uint32 list \<Rightarrow> nat \<Rightarrow> uint32 \<Rightarrow> error + bool" where
  "BitReference_read Data DwordIdx Msk =
     (if DwordIdx < length Data then Inr ((Data ! DwordIdx) AND Msk \<noteq> 0)
      else Inl InvalidAccess)"

definition BitReference_assign ::
    "uint32 list \<Rightarrow> nat \<Rightarrow> uint32 \<Rightarrow> bool \<Rightarrow> error + uint32 list" where
  "BitReference_assign Data DwordIdx Msk bNewValue =
     (if DwordIdx < length Data
      then Inr (Data[DwordIdx := (if bNewValue then (Data ! DwordIdx) OR Msk
                                  else (Data ! DwordIdx) AND NOT Msk)])
      else Inl InvalidAccess)"

record FRelativeBitReference =
  DwordIndex :: uint32
  Mask :: uint32

text \<open>\<^verbatim>\<open>FIterator\<close> and \<^verbatim>\<open>FConstIterator\<close> have the same fields and the same increment.\<close>

record FIterator = FRelativeBitReference +
  Index :: uint32

definition FIterator_ctor :: "uint32 \<Rightarrow> FIterator" where
  "FIterator_ctor StartIndex =
     \<lparr>DwordIndex = drop_bit NUM_BITS_PER_DWORD_LOG_TWO StartIndex,
      Mask = push_bit (unat (StartIndex AND (NUM_BITS_PER_DWORD - 1))) 1,
      Index = StartIndex\<rparr>"

definition FIterator_incr :: "FIterator \<Rightarrow> FIterator" where
  "FIterator_incr It =
     (let It1 = It\<lparr>Index := Index It + 1, Mask := push_bit 1 (Mask It)\<rparr>
      in if Mask It1 = 0 then It1\<lparr>Mask := 1, DwordIndex := DwordIndex It1 + 1\<rparr> else It1)"

definition FIterator_valid :: "TBitArray \<Rightarrow> FIterator \<Rightarrow> bool" where
  "FIterator_valid arr It = (Index It < TBitArray_Num arr)"

definition FIterator_GetValue :: "uint32 list \<Rightarrow> FIterator \<Rightarrow> error + bool" where
  "FIterator_GetValue Data It = BitReference_read Data (unat (DwordIndex It)) (Mask It)"

definition FIterator_SetValue :: "uint32 list \<Rightarrow> FIterator \<Rightarrow> bool \<Rightarrow> error + uint32 list" where
  "FIterator_SetValue Data It b = BitReference_assign Data (unat (DwordIndex It)) (Mask It) b"

subsection \<open>Indexing\<close>

definition TBitArray_operator_index :: "TBitArray \<Rightarrow> uint32 \<Rightarrow> error + bool" where
  "TBitArray_operator_index arr Idx =
     (if Idx < NumBits arr
      then BitReference_read (TBitArray_GetData arr) (unat (Idx div NUM_BITS_PER_DWORD))
             (push_bit (unat (Idx AND (NUM_BITS_PER_DWORD - 1))) 1)
      else Inl CheckFailed)"


subsection \<open>Basic memory operations\<close>

definition TBitArray_Realloc :: "FAllocator \<Rightarrow> TBitArray \<Rightarrow> uint32 \<Rightarrow> error + TBitArray" where
  "TBitArray_Realloc al arr PreviousNumBits =
     (let PreviousNumDwords = DivideAndRoundUp PreviousNumBits NUM_BITS_PER_DWORD;
          MaxDwords = DivideAndRoundUp (MaxBits arr) NUM_BITS_PER_DWORD;
          Data = ResizeAllocation (FreshDword al) (TBitArray_GetData arr)
                   (unat PreviousNumDwords) (unat MaxDwords)
      in if MaxDwords \<noteq> 0
         then (case Memzero Data (unat PreviousNumDwords) (unat (MaxDwords - PreviousNumDwords)) of
                 Inl e \<Rightarrow> Inl e
               | Inr Data' \<Rightarrow> Inr (arr\<lparr>BitAllocatorInstance := Data'\<rparr>))
         else Inr (arr\<lparr>BitAllocatorInstance := Data\<rparr>))"

definition TBitArray_Empty :: "FAllocator \<Rightarrow> TBitArray \<Rightarrow> uint32 \<Rightarrow> error + TBitArray" where
  "TBitArray_Empty al arr ExpectedNumBits =
     (let arr1 = arr\<lparr>NumBits := 0\<rparr>;
          Expected = DivideAndRoundUp ExpectedNumBits NUM_BITS_PER_DWORD * NUM_BITS_PER_DWORD
      in if MaxBits arr1 \<noteq> Expected then TBitArray_Realloc al (arr1\<lparr>MaxBits := Expected\<rparr>) 0
         else Inr arr1)"

definition TBitArray_Init :: "FAllocator \<Rightarrow> TBitArray \<Rightarrow> bool \<Rightarrow> uint32 \<Rightarrow> error + TBitArray" where
  "TBitArray_Init al arr bValue InNumBits =
     (case TBitArray_Empty al arr InNumBits of
        Inl e \<Rightarrow> Inl e
      | Inr arr1 \<Rightarrow>
          if InNumBits \<noteq> 0
          then (let arr2 = arr1\<lparr>NumBits := InNumBits\<rparr> in
                case Memset (TBitArray_GetData arr2) 0 (if bValue then 0xff else 0)
                       (unat (DivideAndRoundUp (NumBits arr2) NUM_BITS_PER_DWORD)) of
                  Inl e \<Rightarrow> Inl e
                | Inr Data \<Rightarrow> Inr (arr2\<lparr>BitAllocatorInstance := Data\<rparr>))
          else Inr arr1)"

text \<open>
  The constructor \<^verbatim>\<open>TBitArray(Value = false, InNumBits = 0)\<close>: both counters zero, a
  default-constructed allocator (no buffer), then \<open>Init\<close>.
\<close>

definition TBitArray_ctor :: "FAllocator \<Rightarrow> bool \<Rightarrow> uint32 \<Rightarrow> error + TBitArray" where
  "TBitArray_ctor al Value InNumBits =
     TBitArray_Init al \<lparr>BitAllocatorInstance = [], NumBits = 0, MaxBits = 0\<rparr> Value InNumBits"






subsection \<open>SetRange\<close>

definition modify_dword :: "uint32 list \<Rightarrow> nat \<Rightarrow> (uint32 \<Rightarrow> uint32) \<Rightarrow> error + uint32 list" where
  "modify_dword Data p f =
     (if p < length Data then Inr (Data[p := f (Data ! p)]) else Inl InvalidAccess)"

text \<open>The interior loop \<^verbatim>\<open>while (Count != 0) { *Data++ = v; --Count; }\<close>.\<close>

primrec TBitArray_SetRange_fill :: "uint32 list \<Rightarrow> nat \<Rightarrow> nat \<Rightarrow> uint32 \<Rightarrow> error + (uint32 list \<times> nat)" where
  "TBitArray_SetRange_fill Data p 0 v = Inr (Data, p)"
| "TBitArray_SetRange_fill Data p (Suc n) v =
     (if p < length Data then TBitArray_SetRange_fill (Data[p := v]) (Suc p) n v else Inl InvalidAccess)"

definition TBitArray_SetRange :: "TBitArray \<Rightarrow> uint32 \<Rightarrow> uint32 \<Rightarrow> bool \<Rightarrow> error + TBitArray" where
  "TBitArray_SetRange arr Idx Nm bValue =
     (if \<not> (Idx + Nm \<le> NumBits arr) then Inl CheckFailed
      else if Nm = 0 then Inr arr
      else
        let StartIndex = Idx div NUM_BITS_PER_DWORD;
            Count = (Idx + Nm + (NUM_BITS_PER_DWORD - 1)) div NUM_BITS_PER_DWORD - StartIndex;
            StartMask :: uint32 = push_bit (unat (Idx mod NUM_BITS_PER_DWORD)) 0xFFFFFFFF;
            EndMask :: uint32 =
              drop_bit (unat ((NUM_BITS_PER_DWORD - (Idx + Nm) mod NUM_BITS_PER_DWORD)
                               mod NUM_BITS_PER_DWORD)) 0xFFFFFFFF;
            p = unat StartIndex;
            first = (\<lambda>w. if bValue then w OR StartMask else w AND NOT StartMask);
            last = (\<lambda>w. if bValue then w OR EndMask else w AND NOT EndMask);
            both = (\<lambda>w. if bValue then w OR (StartMask AND EndMask)
                         else w AND NOT (StartMask AND EndMask))
        in
          if Count = 1
          then (case modify_dword (TBitArray_GetData arr) p both of
                  Inl e \<Rightarrow> Inl e
                | Inr Data \<Rightarrow> Inr (arr\<lparr>BitAllocatorInstance := Data\<rparr>))
          else
            (case modify_dword (TBitArray_GetData arr) p first of
               Inl e \<Rightarrow> Inl e
             | Inr Data1 \<Rightarrow>
                 (case TBitArray_SetRange_fill Data1 (Suc p) (unat (Count - 2)) (if bValue then NOT 0 else 0) of
                    Inl e \<Rightarrow> Inl e
                  | Inr (Data2, q) \<Rightarrow>
                      (case modify_dword Data2 q last of
                         Inl e \<Rightarrow> Inl e
                       | Inr Data3 \<Rightarrow> Inr (arr\<lparr>BitAllocatorInstance := Data3\<rparr>)))))"

subsection \<open>RemoveAt\<close>

text \<open>
  The compaction loop of \<open>RemoveAt\<close>: \<open>ReadIt\<close> visits every index below \<open>Num\<close>, and every
  bit outside the removed range is written through \<open>WriteIt\<close>, unless both iterators stand
  at the same index.
\<close>

function TBitArray_RemoveAt_loop ::
    "uint32 \<Rightarrow> uint32 \<Rightarrow> uint32 \<Rightarrow> uint32 list \<Rightarrow> FIterator \<Rightarrow> FIterator \<Rightarrow> error + uint32 list"
where
  "TBitArray_RemoveAt_loop N BaseIndex NumBitsToRemove Data WriteIt ReadIt =
     (if Index ReadIt < N
      then
        if Index ReadIt < BaseIndex \<or> Index ReadIt \<ge> BaseIndex + NumBitsToRemove
        then
          if Index WriteIt \<noteq> Index ReadIt
          then (case FIterator_GetValue Data ReadIt of
                  Inl e \<Rightarrow> Inl e
                | Inr b \<Rightarrow>
                    (case FIterator_SetValue Data WriteIt b of
                       Inl e \<Rightarrow> Inl e
                     | Inr Data' \<Rightarrow>
                         TBitArray_RemoveAt_loop N BaseIndex NumBitsToRemove Data'
                           (FIterator_incr WriteIt) (FIterator_incr ReadIt)))
          else TBitArray_RemoveAt_loop N BaseIndex NumBitsToRemove Data
                 (FIterator_incr WriteIt) (FIterator_incr ReadIt)
        else TBitArray_RemoveAt_loop N BaseIndex NumBitsToRemove Data WriteIt (FIterator_incr ReadIt)
      else Inr Data)"
  by pat_completeness auto

lemma Index_FIterator_incr: "Index (FIterator_incr It) = Index It + 1"
  by (simp add: FIterator_incr_def Let_def)

lemma unat_incr_below: "(i :: uint32) < N \<Longrightarrow> unat (i + 1) = Suc (unat i)"
  by unat_arith

termination TBitArray_RemoveAt_loop
  by (relation "measure (\<lambda>(N, B, R, D, W, It). unat N - unat (Index It))")
     (auto simp: Index_FIterator_incr unat_incr_below word_less_nat_alt)

declare TBitArray_RemoveAt_loop.simps [simp del]

definition TBitArray_RemoveAt :: "TBitArray \<Rightarrow> uint32 \<Rightarrow> uint32 \<Rightarrow> error + TBitArray" where
  "TBitArray_RemoveAt arr BaseIndex NumBitsToRemove =
     (if \<not> (BaseIndex + NumBitsToRemove \<le> NumBits arr) then Inl CheckFailed
      else if BaseIndex + NumBitsToRemove \<noteq> NumBits arr
      then (case TBitArray_RemoveAt_loop (TBitArray_Num arr) BaseIndex NumBitsToRemove (TBitArray_GetData arr)
                   (FIterator_ctor 0) (FIterator_ctor 0) of
              Inl e \<Rightarrow> Inl e
            | Inr Data \<Rightarrow>
                Inr (arr\<lparr>BitAllocatorInstance := Data, NumBits := NumBits arr - NumBitsToRemove\<rparr>))
      else Inr (arr\<lparr>NumBits := NumBits arr - NumBitsToRemove\<rparr>))"

subsection \<open>Copy and move\<close>

text \<open>
  Modelled from the spec: \<^verbatim>\<open>FAllocator::MoveToEmpty\<close> is missing from the sources. The spec:
  "an O(1) ownership-transfer operation from another allocator instance of the same type".
  The destination takes the buffer of the source, and the source is left without one.
\<close>

definition MoveToEmpty :: "'s list \<Rightarrow> 't list \<Rightarrow> 't list \<times> 't list" where
  "MoveToEmpty ToData FromData = (FromData, [])"

text \<open>
  Copy assignment between two distinct objects; the test \<^verbatim>\<open>this == &Copy\<close> is made where
  the objects have addresses, in \<open>TBitArray_assign_at\<close> below.
\<close>

definition TBitArray_operator_assign :: "FAllocator \<Rightarrow> TBitArray \<Rightarrow> TBitArray \<Rightarrow> error + TBitArray" where
  "TBitArray_operator_assign al this Copy =
     (case TBitArray_Empty al this (TBitArray_Num Copy) of
        Inl e \<Rightarrow> Inl e
      | Inr arr1 \<Rightarrow>
          (let arr2 = arr1\<lparr>NumBits := NumBits Copy\<rparr> in
           if NumBits arr2 \<noteq> 0
           then (let NumDwords = DivideAndRoundUp (MaxBits arr2) NUM_BITS_PER_DWORD in
                 case Memcpy (TBitArray_GetData arr2) (TBitArray_GetData Copy) (unat NumDwords) of
                   Inl e \<Rightarrow> Inl e
                 | Inr Data \<Rightarrow> Inr (arr2\<lparr>BitAllocatorInstance := Data\<rparr>))
           else Inr arr2))"

text \<open>
  \<open>MoveOrCopy\<close> has two overloads, chosen by the allocator's \<^verbatim>\<open>SupportsMove\<close>. The result
  is the pair of the destination and the source after the call.
\<close>

definition TBitArray_MoveOrCopy ::
    "FAllocator \<Rightarrow> TBitArray \<Rightarrow> TBitArray \<Rightarrow> error + (TBitArray \<times> TBitArray)" where
  "TBitArray_MoveOrCopy al ToArray FromArray =
     (if SupportsMove al
      then (let (ToData, FromData) =
                  MoveToEmpty (BitAllocatorInstance ToArray) (BitAllocatorInstance FromArray)
            in Inr (ToArray\<lparr>BitAllocatorInstance := ToData,
                              NumBits := NumBits FromArray, MaxBits := MaxBits FromArray\<rparr>,
                    FromArray\<lparr>BitAllocatorInstance := FromData, NumBits := 0, MaxBits := 0\<rparr>))
      else (case TBitArray_operator_assign al ToArray FromArray of
              Inl e \<Rightarrow> Inl e
            | Inr ToArray' \<Rightarrow> Inr (ToArray', FromArray)))"

text \<open>
  The move constructor builds the destination in raw storage: its allocator is
  default-constructed, its two counters are indeterminate (\<open>n0\<close>, \<open>m0\<close>).
\<close>

definition TBitArray_move_ctor ::
    "FAllocator \<Rightarrow> uint32 \<Rightarrow> uint32 \<Rightarrow> TBitArray \<Rightarrow> error + (TBitArray \<times> TBitArray)" where
  "TBitArray_move_ctor al n0 m0 Other =
     TBitArray_MoveOrCopy al \<lparr>BitAllocatorInstance = [], NumBits = n0, MaxBits = m0\<rparr> Other"


definition TBitArray_move_assign_at ::
    "FAllocator \<Rightarrow> (nat \<Rightarrow> TBitArray) \<Rightarrow> nat \<Rightarrow> nat \<Rightarrow> error + (nat \<Rightarrow> TBitArray)" where
  "TBitArray_move_assign_at al st this Other =
     (if this \<noteq> Other
      then (case TBitArray_MoveOrCopy al (st this) (st Other) of
              Inl e \<Rightarrow> Inl e
            | Inr (ToArray, FromArray) \<Rightarrow> Inr (st(this := ToArray, Other := FromArray)))
      else Inr st)"

subsection \<open>Filter operations\<close>

text \<open>
  \<^verbatim>\<open>INVALID_INDEX\<close>, the "not found" sentinel, is not defined in the sources; \<open>Find\<close> and
  \<open>FindLast\<close> take it as a parameter. \<^verbatim>\<open>Assume(Bits != 0)\<close> is an optimiser hint, undefined
  where it does not hold.
\<close>

definition read_dword :: "uint32 list \<Rightarrow> uint32 \<Rightarrow> error + uint32" where
  "read_dword DwordArray DwordIdx =
     (if unat DwordIdx < length DwordArray then Inr (DwordArray ! unat DwordIdx)
      else Inl InvalidAccess)"

function TBitArray_Find_loop :: "uint32 list \<Rightarrow> uint32 \<Rightarrow> uint32 \<Rightarrow> uint32 \<Rightarrow> error + uint32" where
  "TBitArray_Find_loop DwordArray Test DwordCount DwordIdx =
     (if DwordIdx < DwordCount
      then (case read_dword DwordArray DwordIdx of
              Inl e \<Rightarrow> Inl e
            | Inr w \<Rightarrow>
                if w = Test then TBitArray_Find_loop DwordArray Test DwordCount (DwordIdx + 1)
                else Inr DwordIdx)
      else Inr DwordIdx)"
  by pat_completeness auto

termination TBitArray_Find_loop
  by (relation "measure (\<lambda>(D, T, DwordCount, DwordIdx). unat DwordCount - unat DwordIdx)")
     (auto simp: unat_incr_below word_less_nat_alt)

declare TBitArray_Find_loop.simps [simp del]

definition TBitArray_Find :: "uint32 \<Rightarrow> TBitArray \<Rightarrow> bool \<Rightarrow> error + uint32" where
  "TBitArray_Find INVALID_INDEX arr bValue =
     (let Test :: uint32 = (if bValue then 0 else - 1);
          DwordArray = TBitArray_GetData arr;
          LocalNumBits = NumBits arr;
          DwordCount = DivideAndRoundUp LocalNumBits NUM_BITS_PER_DWORD
      in case TBitArray_Find_loop DwordArray Test DwordCount 0 of
           Inl e \<Rightarrow> Inl e
         | Inr DwordIdx \<Rightarrow>
             if DwordIdx < DwordCount
             then (case read_dword DwordArray DwordIdx of
                     Inl e \<Rightarrow> Inl e
                   | Inr w \<Rightarrow>
                       (let Bits = (if bValue then w else NOT w) in
                        if Bits = 0 then Inl InvalidAccess
                        else
                          let LowestBitIndex = CountTrailingZeros Bits
                                + push_bit NUM_BITS_PER_DWORD_LOG_TWO DwordIdx
                          in if LowestBitIndex < LocalNumBits then Inr LowestBitIndex
                             else Inr INVALID_INDEX))
             else Inr INVALID_INDEX)"

text \<open>
  The scan of \<open>FindLast\<close>: \<open>None\<close> when the word index reaches 0 (the source returns the
  sentinel there), otherwise the word index and mask at the \<^verbatim>\<open>break\<close>.
\<close>

function TBitArray_FindLast_loop ::
    "uint32 list \<Rightarrow> uint32 \<Rightarrow> uint32 \<Rightarrow> uint32 \<Rightarrow> error + (uint32 \<times> uint32) option" where
  "TBitArray_FindLast_loop DwordArray Test Msk DwordIdx =
     (if DwordIdx = 0 then Inr None
      else (case read_dword DwordArray (DwordIdx - 1) of
              Inl e \<Rightarrow> Inl e
            | Inr w \<Rightarrow>
                if w AND Msk \<noteq> Test AND Msk then Inr (Some (DwordIdx - 1, Msk))
                else TBitArray_FindLast_loop DwordArray Test (NOT 0) (DwordIdx - 1)))"
  by pat_completeness auto

lemma unat_decr_nonzero: "(i :: uint32) \<noteq> 0 \<Longrightarrow> unat (i - 1) < unat i"
  by unat_arith

termination TBitArray_FindLast_loop
  by (relation "measure (\<lambda>(D, T, M, DwordIdx). unat DwordIdx)")
     (auto simp: unat_decr_nonzero)

declare TBitArray_FindLast_loop.simps [simp del]

definition TBitArray_FindLast :: "uint32 \<Rightarrow> TBitArray \<Rightarrow> bool \<Rightarrow> error + uint32" where
  "TBitArray_FindLast INVALID_INDEX arr bValue =
     (let LocalNumBits = NumBits arr;
          SlackIndex = ((LocalNumBits - 1) mod NUM_BITS_PER_DWORD) + 1;
          Msk :: uint32 = drop_bit (unat (NUM_BITS_PER_DWORD - SlackIndex)) (NOT 0);
          DwordIdx = DivideAndRoundUp LocalNumBits NUM_BITS_PER_DWORD;
          DwordArray = TBitArray_GetData arr;
          Test :: uint32 = (if bValue then 0 else NOT 0)
      in case TBitArray_FindLast_loop DwordArray Test Msk DwordIdx of
           Inl e \<Rightarrow> Inl e
         | Inr None \<Rightarrow> Inr INVALID_INDEX
         | Inr (Some (DwordIdx', Msk')) \<Rightarrow>
             (case read_dword DwordArray DwordIdx' of
                Inl e \<Rightarrow> Inl e
              | Inr w \<Rightarrow>
                  (let Bits = (if bValue then w else NOT w) AND Msk' in
                   if Bits = 0 then Inl InvalidAccess
                   else
                     let BitIndex = (NUM_BITS_PER_DWORD - 1) - CountLeadingZeros Bits
                     in Inr (BitIndex + push_bit NUM_BITS_PER_DWORD_LOG_TWO DwordIdx'))))"

definition TBitArray_Contains :: "uint32 \<Rightarrow> TBitArray \<Rightarrow> bool \<Rightarrow> error + bool" where
  "TBitArray_Contains INVALID_INDEX arr bValue =
     (case TBitArray_Find INVALID_INDEX arr bValue of
        Inl e \<Rightarrow> Inl e
      | Inr i \<Rightarrow> Inr (i \<noteq> INVALID_INDEX))"

section \<open>TArray\<close>

text \<open>
  An element slot of the buffer holds a constructed element (\<open>Some\<close>) or no object
  (\<open>None\<close>: storage that was never constructed, or whose element was destroyed by a
  non-trivial destructor). The state of an array: the buffer of its allocator instance,
  \<open>ArrayNum\<close> and \<open>ArrayMax\<close>.
\<close>

record 'a TArray =
  AllocatorInstance :: "'a option list"
  ArrayNum :: int
  ArrayMax :: int

text \<open>
  The element-trait queries (\<^verbatim>\<open>Templates/IsBitwiseRelocatable.h\<close>,
  \<^verbatim>\<open>IsTriviallyDestructable.h\<close>, \<^verbatim>\<open>TypeTraits.h\<close>) are not part of the sources: they are
  parameters, with \<^verbatim>\<open>sizeof(FElementType)\<close> and the object representation of an element.
\<close>

record 'a FElementTraits =
  IsBitwiseRelocatable :: bool
  IsTriviallyDestructible :: bool
  IsBytewiseComparable :: bool
  SizeOf :: int
  ObjectBytes :: "'a \<Rightarrow> uint8 list"

text \<open>
  What \<open>TCanMoveTArrayPointersBetweenArrayTypes\<close> and \<open>ConstructItems\<close> ask about a pair
  of array types (destination \<open>'a\<close>, source \<open>'b\<close>): whether the two allocator types are the
  same type, whether the two element types are, whether the destination's element type is
  bitwise constructible from the source's; and the converting copy constructor
  \<^verbatim>\<open>FElementType(const FOtherElementType&)\<close>.
\<close>

record ('a, 'b) FArrayTypes =
  AllocatorsEqual :: bool
  ElementTypesEqual :: bool
  IsBitwiseConstructible :: bool
  Construct :: "'b \<Rightarrow> 'a"

text \<open>
  The member types that the class template \<^verbatim>\<open>TArray\<close> declares, by name. There is one, the
  private alias \<^verbatim>\<open>using FSizeType = typename FAllocator::FSizeType\<close>. \<^verbatim>\<open>FElementType\<close> and
  \<^verbatim>\<open>FAllocator\<close> are the names of its template parameters; a template parameter is not a
  member of the class, and \<^verbatim>\<open>TArray\<close> has no alias that would make either one a member
  (\<^verbatim>\<open>TBitArray\<close> has one: \<^verbatim>\<open>using FAllocator = FInAllocator\<close>).
\<close>

definition TArray_member_types :: "string list" where
  "TArray_member_types = [''FSizeType'']"

text \<open>
  The trait reads four member types of its two arguments, \<^verbatim>\<open>FFromArrayType::FAllocator\<close>,
  \<^verbatim>\<open>FToArrayType::FAllocator\<close>, \<^verbatim>\<open>FFromArrayType::FElementType\<close> and
  \<^verbatim>\<open>FToArrayType::FElementType\<close>, and computes \<^verbatim>\<open>Value\<close> from them. Its arguments are
  given by the member types they declare. Where one of the four names is not declared, the
  instantiation of the trait is ill-formed and it has no \<^verbatim>\<open>Value\<close>: the result is \<open>None\<close>.
\<close>

definition TCanMoveTArrayPointersBetweenArrayTypes ::
    "string list \<Rightarrow> string list \<Rightarrow> ('a, 'b) FArrayTypes \<Rightarrow> bool option" where
  "TCanMoveTArrayPointersBetweenArrayTypes FFromArrayType FToArrayType ty =
     (if ''FAllocator'' \<in> set FFromArrayType \<and> ''FAllocator'' \<in> set FToArrayType
         \<and> ''FElementType'' \<in> set FFromArrayType \<and> ''FElementType'' \<in> set FToArrayType
      then Some (AllocatorsEqual ty \<and> (ElementTypesEqual ty \<or> IsBitwiseConstructible ty))
      else None)"

definition TArray_ctor :: "'a TArray" where
  "TArray_ctor = \<lparr>AllocatorInstance = [], ArrayNum = 0, ArrayMax = 0\<rparr>"

definition TArray_GetData :: "'a TArray \<Rightarrow> 'a option list" where
  "TArray_GetData a = AllocatorInstance a"

definition TArray_Num :: "'a TArray \<Rightarrow> int" where
  "TArray_Num a = ArrayNum a"

definition TArray_GetSlack :: "'a TArray \<Rightarrow> int" where
  "TArray_GetSlack a = ArrayMax a - ArrayNum a"

subsection \<open>Helper functions\<close>

definition CheckInvariants :: "'a TArray \<Rightarrow> bool" where
  "CheckInvariants a = (ArrayNum a \<ge> 0 \<and> ArrayMax a \<ge> ArrayNum a)"

definition RangeCheck :: "FAllocator \<Rightarrow> 'a TArray \<Rightarrow> int \<Rightarrow> bool" where
  "RangeCheck al a Idx =
     (CheckInvariants a \<and> (if RequireRangeCheck al then Idx \<ge> 0 \<and> Idx < ArrayNum a else True))"

text \<open>
  The argument of \<open>Add\<close> and \<open>Insert\<close> is a reference. \<open>Outside x\<close> is an object of value
  \<open>x\<close> that is not part of the array's allocation; \<open>Slot k\<close> is the address
  \<^verbatim>\<open>GetData() + k\<close>. \<open>CheckAddress\<close> accepts an address outside
  \<^verbatim>\<open>[GetData(), GetData() + ArrayMax)\<close>; reading through a \<open>Slot\<close> address that passed
  the check is a read outside the allocation.
\<close>

datatype 'a FItemRef = Outside 'a | Slot int

definition CheckAddress :: "'a TArray \<Rightarrow> 'a FItemRef \<Rightarrow> bool" where
  "CheckAddress a Address =
     (case Address of Outside x \<Rightarrow> True | Slot k \<Rightarrow> k < 0 \<or> k \<ge> ArrayMax a)"

definition read_item :: "'a FItemRef \<Rightarrow> error + 'a" where
  "read_item Item = (case Item of Outside x \<Rightarrow> Inr x | Slot k \<Rightarrow> Inl InvalidAccess)"

definition read_slot :: "'a option list \<Rightarrow> int \<Rightarrow> error + 'a" where
  "read_slot Data Idx =
     (if 0 \<le> Idx \<and> nat Idx < length Data
      then (case Data ! nat Idx of None \<Rightarrow> Inl InvalidAccess | Some v \<Rightarrow> Inr v)
      else Inl InvalidAccess)"

text \<open>Placement \<^verbatim>\<open>new\<close> of a copy of \<open>v\<close> at \<^verbatim>\<open>GetData() + Idx\<close>.\<close>

definition construct_at :: "'a option list \<Rightarrow> int \<Rightarrow> 'a \<Rightarrow> error + 'a option list" where
  "construct_at Data Idx v =
     (if 0 \<le> Idx \<and> nat Idx < length Data then Inr (Data[nat Idx := Some v])
      else Inl InvalidAccess)"

definition TArray_operator_index :: "FAllocator \<Rightarrow> 'a TArray \<Rightarrow> int \<Rightarrow> error + 'a" where
  "TArray_operator_index al a Idx =
     (if RangeCheck al a Idx then read_slot (TArray_GetData a) Idx else Inl CheckFailed)"

subsection \<open>Ranges of items\<close>

text \<open>
  \<^verbatim>\<open>FMemory::Memmove\<close> inside one buffer, with offsets and count in elements: the source
  range is read before the destination range is written.
\<close>

definition Memmove :: "'s list \<Rightarrow> nat \<Rightarrow> nat \<Rightarrow> nat \<Rightarrow> error + 's list" where
  "Memmove Data Dest Source Count =
     (if Count = 0 then Inr Data
      else if Source + Count \<le> length Data \<and> Dest + Count \<le> length Data
      then Inr (take Dest Data @ take Count (drop Source Data) @ drop (Dest + Count) Data)
      else Inl InvalidAccess)"

text \<open>
  \<open>DestructItems\<close>: nothing for a trivially destructible type; otherwise the destructor
  runs on each element of the range, front to back, and leaves a slot without an object.
\<close>

primrec DestructItems_loop :: "'a option list \<Rightarrow> nat \<Rightarrow> nat \<Rightarrow> error + 'a option list" where
  "DestructItems_loop Data Element 0 = Inr Data"
| "DestructItems_loop Data Element (Suc n) =
     (if Element < length Data
      then (case Data ! Element of
              None \<Rightarrow> Inl InvalidAccess
            | Some v \<Rightarrow> DestructItems_loop (Data[Element := None]) (Suc Element) n)
      else Inl InvalidAccess)"

definition DestructItems ::
    "'a FElementTraits \<Rightarrow> 'a option list \<Rightarrow> int \<Rightarrow> int \<Rightarrow> error + 'a option list" where
  "DestructItems tr Data Element Count =
     (if IsTriviallyDestructible tr then Inr Data
      else if Count < 0 \<or> Element < 0 then Inl InvalidAccess
      else DestructItems_loop Data (nat Element) (nat Count))"

text \<open>
  \<open>RelocateConstructItems\<close>: \<^verbatim>\<open>Memmove\<close> for a bitwise relocatable type; otherwise the
  loop copy-constructs each element at \<open>Dest\<close> and destroys it at \<open>Source\<close>, walking both
  pointers upwards.
\<close>

primrec RelocateConstructItems_loop ::
    "bool \<Rightarrow> 'a option list \<Rightarrow> nat \<Rightarrow> nat \<Rightarrow> nat \<Rightarrow> error + 'a option list" where
  "RelocateConstructItems_loop trivial Data Dest Source 0 = Inr Data"
| "RelocateConstructItems_loop trivial Data Dest Source (Suc n) =
     (if Source < length Data \<and> Dest < length Data
      then (case Data ! Source of
              None \<Rightarrow> Inl InvalidAccess
            | Some v \<Rightarrow>
                (let Data1 = Data[Dest := Some v];
                     Data2 = (if trivial then Data1 else Data1[Source := None])
                 in RelocateConstructItems_loop trivial Data2 (Suc Dest) (Suc Source) n))
      else Inl InvalidAccess)"

definition RelocateConstructItems ::
    "'a FElementTraits \<Rightarrow> 'a option list \<Rightarrow> int \<Rightarrow> int \<Rightarrow> int \<Rightarrow> error + 'a option list" where
  "RelocateConstructItems tr Data Dest Source Count =
     (if Count < 0 \<or> Dest < 0 \<or> Source < 0 then Inl InvalidAccess
      else if IsBitwiseRelocatable tr then Memmove Data (nat Dest) (nat Source) (nat Count)
      else RelocateConstructItems_loop (IsTriviallyDestructible tr) Data
             (nat Dest) (nat Source) (nat Count))"

text \<open>
  \<open>ConstructItems\<close> fills the front of the destination buffer from a source range:
  \<^verbatim>\<open>Memcpy\<close> when the destination type is bitwise constructible from the source type,
  otherwise one converting copy construction per element.
\<close>

primrec ConstructItems_loop ::
    "('b \<Rightarrow> 'a) \<Rightarrow> 'a option list \<Rightarrow> nat \<Rightarrow> 'b option list \<Rightarrow> nat \<Rightarrow> nat \<Rightarrow> error + 'a option list"
where
  "ConstructItems_loop f Dest d Source s 0 = Inr Dest"
| "ConstructItems_loop f Dest d Source s (Suc n) =
     (if s < length Source \<and> d < length Dest
      then (case Source ! s of
              None \<Rightarrow> Inl InvalidAccess
            | Some v \<Rightarrow> ConstructItems_loop f (Dest[d := Some (f v)]) (Suc d) Source (Suc s) n)
      else Inl InvalidAccess)"

definition ConstructItems ::
    "('a, 'b) FArrayTypes \<Rightarrow> 'a option list \<Rightarrow> 'b option list \<Rightarrow> int \<Rightarrow> error + 'a option list" where
  "ConstructItems ty Dest Source Count =
     (if Count < 0 then Inl InvalidAccess
      else if IsBitwiseConstructible ty
      then Memcpy Dest (map (map_option (Construct ty)) Source) (nat Count)
      else ConstructItems_loop (Construct ty) Dest 0 Source 0 (nat Count))"

text \<open>
  \<open>CompareItems\<close>: \<^verbatim>\<open>Memcmp\<close> over the object representations for a bytewise comparable
  type, otherwise \<^verbatim>\<open>==\<close> element by element until \<open>Count\<close> reaches zero.
\<close>

definition Memcmp_equal ::
    "('a \<Rightarrow> uint8 list) \<Rightarrow> 'a option list \<Rightarrow> 'a option list \<Rightarrow> nat \<Rightarrow> error + bool" where
  "Memcmp_equal bytes A B Count =
     (if Count \<le> length A \<and> Count \<le> length B
         \<and> None \<notin> set (take Count A) \<and> None \<notin> set (take Count B)
      then Inr (concat (map (bytes \<circ> the) (take Count A)) = concat (map (bytes \<circ> the) (take Count B)))
      else Inl InvalidAccess)"

fun CompareItems_loop :: "'a option list \<Rightarrow> 'a option list \<Rightarrow> nat \<Rightarrow> error + bool" where
  "CompareItems_loop A B 0 = Inr True"
| "CompareItems_loop (Some x # A) (Some y # B) (Suc n) =
     (if \<not> (x = y) then Inr False else CompareItems_loop A B n)"
| "CompareItems_loop A B (Suc n) = Inl InvalidAccess"

definition CompareItems ::
    "'a FElementTraits \<Rightarrow> 'a option list \<Rightarrow> 'a option list \<Rightarrow> int \<Rightarrow> error + bool" where
  "CompareItems tr A B Count =
     (if Count < 0 then Inl InvalidAccess
      else if IsBytewiseComparable tr then Memcmp_equal (ObjectBytes tr) A B (nat Count)
      else CompareItems_loop A B (nat Count))"

subsection \<open>Memory functions\<close>

definition ResizeGrow :: "FAllocator \<Rightarrow> 'a FElementTraits \<Rightarrow> 'a TArray \<Rightarrow> int \<Rightarrow> 'a TArray" where
  "ResizeGrow al tr a OldNum =
     (let NewMax = CalculateSlackGrow al (ArrayNum a) (ArrayMax a) (SizeOf tr)
      in a\<lparr>ArrayMax := NewMax,
           AllocatorInstance :=
             ResizeAllocation (\<lambda>i. None) (AllocatorInstance a) (nat OldNum) (nat NewMax)\<rparr>)"

definition ResizeForCopy :: "'a TArray \<Rightarrow> int \<Rightarrow> int \<Rightarrow> 'a TArray" where
  "ResizeForCopy a NewMax PrevMax =
     (let a1 = (if NewMax \<noteq> PrevMax
                then a\<lparr>AllocatorInstance :=
                         ResizeAllocation (\<lambda>i. None) (AllocatorInstance a) 0 (nat NewMax)\<rparr>
                else a)
      in a1\<lparr>ArrayMax := NewMax\<rparr>)"

definition ResizeShrink :: "FAllocator \<Rightarrow> 'a FElementTraits \<Rightarrow> 'a TArray \<Rightarrow> error + 'a TArray" where
  "ResizeShrink al tr a =
     (let NewArrayMax = CalculateSlackShrink al (ArrayNum a) (ArrayMax a) (SizeOf tr)
      in if NewArrayMax \<noteq> ArrayMax a
         then (if NewArrayMax \<ge> ArrayNum a
               then Inr (a\<lparr>ArrayMax := NewArrayMax,
                           AllocatorInstance :=
                             ResizeAllocation (\<lambda>i. None) (AllocatorInstance a)
                               (nat (ArrayNum a)) (nat NewArrayMax)\<rparr>)
               else Inl CheckFailed)
         else Inr a)"

definition ResizeTo :: "'a TArray \<Rightarrow> int \<Rightarrow> 'a TArray" where
  "ResizeTo a NewMax =
     (if NewMax \<noteq> ArrayMax a
      then a\<lparr>ArrayMax := NewMax,
             AllocatorInstance :=
               ResizeAllocation (\<lambda>i. None) (AllocatorInstance a) (nat (ArrayNum a)) (nat NewMax)\<rparr>
      else a)"

definition TArray_Shrink :: "'a TArray \<Rightarrow> error + 'a TArray" where
  "TArray_Shrink a =
     (if \<not> CheckInvariants a then Inl CheckFailed
      else if ArrayMax a \<noteq> ArrayNum a then Inr (ResizeTo a (ArrayNum a))
      else Inr a)"

definition AddUninitialized ::
    "FAllocator \<Rightarrow> 'a FElementTraits \<Rightarrow> 'a TArray \<Rightarrow> int \<Rightarrow> error + ('a TArray \<times> int)" where
  "AddUninitialized al tr a Count =
     (if \<not> CheckInvariants a then Inl CheckFailed
      else if \<not> Count \<ge> 0 then Inl CheckFailed
      else
        let OldNum = ArrayNum a;
            a1 = a\<lparr>ArrayNum := ArrayNum a + Count\<rparr>
        in if ArrayNum a1 > ArrayMax a1 then Inr (ResizeGrow al tr a1 OldNum, OldNum)
           else Inr (a1, OldNum))"

definition InsertUninitialized ::
    "FAllocator \<Rightarrow> 'a FElementTraits \<Rightarrow> 'a TArray \<Rightarrow> int \<Rightarrow> int \<Rightarrow> error + 'a TArray" where
  "InsertUninitialized al tr a Idx Count =
     (if \<not> CheckInvariants a then Inl CheckFailed
      else if \<not> (Count \<ge> 0 \<and> Idx \<ge> 0 \<and> Idx \<le> ArrayNum a) then Inl CheckFailed
      else
        let OldNum = ArrayNum a;
            a1 = a\<lparr>ArrayNum := ArrayNum a + Count\<rparr>;
            a2 = (if ArrayNum a1 > ArrayMax a1 then ResizeGrow al tr a1 OldNum else a1)
        in case RelocateConstructItems tr (TArray_GetData a2) (Idx + Count) Idx (OldNum - Idx) of
             Inl e \<Rightarrow> Inl e
           | Inr Data \<Rightarrow> Inr (a2\<lparr>AllocatorInstance := Data\<rparr>))"

subsection \<open>Content modifier functions\<close>

definition TArray_Emplace ::
    "FAllocator \<Rightarrow> 'a FElementTraits \<Rightarrow> 'a TArray \<Rightarrow> 'a FItemRef \<Rightarrow> error + ('a TArray \<times> int)" where
  "TArray_Emplace al tr a Args =
     (case AddUninitialized al tr a 1 of
        Inl e \<Rightarrow> Inl e
      | Inr (a1, Idx) \<Rightarrow>
          (case read_item Args of
             Inl e \<Rightarrow> Inl e
           | Inr v \<Rightarrow>
               (case construct_at (TArray_GetData a1) Idx v of
                  Inl e \<Rightarrow> Inl e
                | Inr Data \<Rightarrow> Inr (a1\<lparr>AllocatorInstance := Data\<rparr>, Idx))))"

definition TArray_Add ::
    "FAllocator \<Rightarrow> 'a FElementTraits \<Rightarrow> 'a TArray \<Rightarrow> 'a FItemRef \<Rightarrow> error + ('a TArray \<times> int)" where
  "TArray_Add al tr a Item =
     (if CheckAddress a Item then TArray_Emplace al tr a Item else Inl CheckFailed)"

definition TArray_Insert ::
    "FAllocator \<Rightarrow> 'a FElementTraits \<Rightarrow> 'a TArray \<Rightarrow> 'a FItemRef \<Rightarrow> int \<Rightarrow> error + ('a TArray \<times> int)"
where
  "TArray_Insert al tr a Item Idx =
     (if CheckAddress a Item
      then (case InsertUninitialized al tr a Idx 1 of
              Inl e \<Rightarrow> Inl e
            | Inr a1 \<Rightarrow>
                (case read_item Item of
                   Inl e \<Rightarrow> Inl e
                 | Inr v \<Rightarrow>
                     (case construct_at (TArray_GetData a1) Idx v of
                        Inl e \<Rightarrow> Inl e
                      | Inr Data \<Rightarrow> Inr (a1\<lparr>AllocatorInstance := Data\<rparr>, Idx))))
      else Inl CheckFailed)"

definition RemoveAtImpl ::
    "FAllocator \<Rightarrow> 'a FElementTraits \<Rightarrow> 'a TArray \<Rightarrow> int \<Rightarrow> int \<Rightarrow> bool \<Rightarrow> error + 'a TArray" where
  "RemoveAtImpl al tr a Idx Count bAllowShrinking =
     (if Count \<noteq> 0
      then
        if \<not> CheckInvariants a then Inl CheckFailed
        else if \<not> (Count \<ge> 0 \<and> Idx \<ge> 0 \<and> Idx + Count \<le> ArrayNum a) then Inl CheckFailed
        else
          (case DestructItems tr (TArray_GetData a) Idx Count of
             Inl e \<Rightarrow> Inl e
           | Inr Data1 \<Rightarrow>
               (let NumToMove = ArrayNum a - Idx - Count in
                case (if NumToMove \<noteq> 0
                      then Memmove Data1 (nat Idx) (nat (Idx + Count)) (nat NumToMove)
                      else Inr Data1) of
                  Inl e \<Rightarrow> Inl e
                | Inr Data2 \<Rightarrow>
                    (let a1 = a\<lparr>AllocatorInstance := Data2, ArrayNum := ArrayNum a - Count\<rparr>
                     in if bAllowShrinking then ResizeShrink al tr a1 else Inr a1)))
      else Inr a)"

definition TArray_RemoveAt ::
    "FAllocator \<Rightarrow> 'a FElementTraits \<Rightarrow> 'a TArray \<Rightarrow> int \<Rightarrow> error + 'a TArray" where
  "TArray_RemoveAt al tr a Idx = RemoveAtImpl al tr a Idx 1 True"

subsection \<open>Copy, move and comparison\<close>

definition CopyToEmpty ::
    "('a, 'b) FArrayTypes \<Rightarrow> 'a TArray \<Rightarrow> 'b option list \<Rightarrow> int \<Rightarrow> int \<Rightarrow> int \<Rightarrow> error + 'a TArray"
where
  "CopyToEmpty ty a OtherData OtherNum PrevMax ExtraSlack =
     (let NewNum = OtherNum in
      if \<not> ExtraSlack \<ge> 0 then Inl CheckFailed
      else
        let a1 = a\<lparr>ArrayNum := NewNum\<rparr> in
        if OtherNum \<noteq> 0 \<or> ExtraSlack \<noteq> 0 \<or> PrevMax \<noteq> 0
        then (let a2 = ResizeForCopy a1 (NewNum + ExtraSlack) PrevMax in
              case ConstructItems ty (TArray_GetData a2) OtherData OtherNum of
                Inl e \<Rightarrow> Inl e
              | Inr Data \<Rightarrow> Inr (a2\<lparr>AllocatorInstance := Data\<rparr>))
        else Inr (a1\<lparr>ArrayMax := 0\<rparr>))"

text \<open>
  \<open>MoveOrCopy\<close> has two overloads. The return type of each names
  \<^verbatim>\<open>TCanMoveTArrayPointersBetweenArrayTypes<FFromArrayType, FToArrayType>::Value\<close>, and every
  call in the class passes two arrays, so both arguments of the trait are instances of
  \<^verbatim>\<open>TArray\<close>. Where the trait has a \<^verbatim>\<open>Value\<close>, it chooses the overload, and the result is
  the pair of the destination and the source after the call; the moving overload hands the
  buffer over as it is, and where the element types differ its content is read through the
  conversion the types are bitwise constructible by. Where the trait has no \<^verbatim>\<open>Value\<close>,
  neither overload can be instantiated.
\<close>

definition TArray_MoveOrCopy ::
    "('a, 'b) FArrayTypes \<Rightarrow> 'a TArray \<Rightarrow> 'b TArray \<Rightarrow> int \<Rightarrow> error + ('a TArray \<times> 'b TArray)" where
  "TArray_MoveOrCopy ty ToArray FromArray PrevMax =
     (case TCanMoveTArrayPointersBetweenArrayTypes TArray_member_types TArray_member_types ty of
        None \<Rightarrow> Inl IllFormed
      | Some True \<Rightarrow>
          (let (ToData, FromData) =
                 MoveToEmpty (AllocatorInstance ToArray) (AllocatorInstance FromArray)
           in Inr (ToArray\<lparr>AllocatorInstance := map (map_option (Construct ty)) ToData,
                             ArrayNum := ArrayNum FromArray, ArrayMax := ArrayMax FromArray\<rparr>,
                   FromArray\<lparr>AllocatorInstance := FromData, ArrayNum := 0, ArrayMax := 0\<rparr>))
      | Some False \<Rightarrow>
          (case CopyToEmpty ty ToArray (TArray_GetData FromArray) (TArray_Num FromArray) PrevMax 0 of
             Inl e \<Rightarrow> Inl e
           | Inr ToArray' \<Rightarrow> Inr (ToArray', FromArray)))"

text \<open>
  The move constructors build the destination in raw storage: its allocator is
  default-constructed, its two counters are indeterminate (\<open>n0\<close>, \<open>m0\<close>). Their body is the
  call of \<open>MoveOrCopy\<close>.
\<close>

definition TArray_move_ctor ::
    "('a, 'b) FArrayTypes \<Rightarrow> int \<Rightarrow> int \<Rightarrow> 'b TArray \<Rightarrow> error + ('a TArray \<times> 'b TArray)" where
  "TArray_move_ctor ty n0 m0 Other =
     TArray_MoveOrCopy ty \<lparr>AllocatorInstance = [], ArrayNum = n0, ArrayMax = m0\<rparr> Other 0"

text \<open>The pair of an array type with itself: same allocator, same element type.\<close>

definition same_type :: "('a, 'a) FArrayTypes" where
  "same_type = \<lparr>AllocatorsEqual = True, ElementTypesEqual = True,
                 IsBitwiseConstructible = False, Construct = (\<lambda>x. x)\<rparr>"



definition TArray_operator_move_assign ::
    "'a FElementTraits \<Rightarrow> 'a TArray \<Rightarrow> 'a TArray \<Rightarrow> error + ('a TArray \<times> 'a TArray)" where
  "TArray_operator_move_assign tr this Other =
     (case DestructItems tr (TArray_GetData this) 0 (ArrayNum this) of
        Inl e \<Rightarrow> Inl e
      | Inr Data \<Rightarrow>
          TArray_MoveOrCopy same_type (this\<lparr>AllocatorInstance := Data\<rparr>) Other (ArrayMax this))"


definition TArray_move_assign_at ::
    "'a FElementTraits \<Rightarrow> (nat \<Rightarrow> 'a TArray) \<Rightarrow> nat \<Rightarrow> nat \<Rightarrow> error + (nat \<Rightarrow> 'a TArray)" where
  "TArray_move_assign_at tr st this Other =
     (case TCanMoveTArrayPointersBetweenArrayTypes TArray_member_types TArray_member_types
             (same_type :: ('a, 'a) FArrayTypes) of
        None \<Rightarrow> Inl IllFormed
      | Some can \<Rightarrow>
          if this \<noteq> Other
          then (case TArray_operator_move_assign tr (st this) (st Other) of
                  Inl e \<Rightarrow> Inl e
                | Inr (ToArray, FromArray) \<Rightarrow> Inr (st(this := ToArray, Other := FromArray)))
          else Inr st)"

text \<open>
  \<^verbatim>\<open>operator==\<close> passes the name \<^verbatim>\<open>Count\<close> to \<open>CompareItems\<close>. The operator declares no
  such name, and neither does the class: whatever it denotes where the operator is
  compiled is the parameter \<open>Count\<close>.
\<close>

definition TArray_operator_eq ::
    "'a FElementTraits \<Rightarrow> int \<Rightarrow> 'a TArray \<Rightarrow> 'a TArray \<Rightarrow> error + bool" where
  "TArray_operator_eq tr Count a OtherArray =
     (if TArray_Num a = TArray_Num OtherArray
      then CompareItems tr (TArray_GetData a) (TArray_GetData OtherArray) Count
      else Inr False)"

section \<open>Example parameters\<close>

text \<open>
  An allocator and two element types for the concrete instances below: a growth policy
  that doubles a requested count below 1024, a shrink policy that releases the slack once it exceeds
  the length; \<^verbatim>\<open>int32\<close> elements with all fast paths, and an element type with none.
\<close>

definition example_allocator :: FAllocator where
  "example_allocator =
     \<lparr>CalculateSlackGrow = (\<lambda>n m s. if n < 1024 then 2 * n else n),
      CalculateSlackShrink = (\<lambda>n m s. if 2 * n < m then n else m),
      RequireRangeCheck = True, SupportsMove = True, FreshDword = (\<lambda>i. 0xDEADBEEF)\<rparr>"

definition int32_traits :: "int FElementTraits" where
  "int32_traits =
     \<lparr>IsBitwiseRelocatable = True, IsTriviallyDestructible = True, IsBytewiseComparable = True,
      SizeOf = 4,
      ObjectBytes = (\<lambda>x. [word_of_int x, word_of_int (x div 256),
                           word_of_int (x div 65536), word_of_int (x div 16777216)])\<rparr>"

definition object_traits :: "int FElementTraits" where
  "object_traits =
     \<lparr>IsBitwiseRelocatable = False, IsTriviallyDestructible = False, IsBytewiseComparable = False,
      SizeOf = 16, ObjectBytes = (\<lambda>x. [])\<rparr>"

section \<open>The concrete bit-array scenario\<close>

lemma replicate_two: "replicate 2 x = [x, x]"
  by (simp add: numeral_2_eq_2)

lemma scenario_ctor:
  "TBitArray_ctor al False 40 = Inr \<lparr>BitAllocatorInstance = [0, 0], NumBits = 40, MaxBits = 64\<rparr>"
  by (simp add: TBitArray_ctor_def TBitArray_Init_def TBitArray_Empty_def TBitArray_Realloc_def
      DivideAndRoundUp_def NUM_BITS_PER_DWORD_def ResizeAllocation_def Memzero_def Memset_def
      TBitArray_GetData_def Let_def upt_rec replicate_two)

lemma scenario_SetRange:
  "TBitArray_SetRange \<lparr>BitAllocatorInstance = [0, 0], NumBits = 40, MaxBits = 64\<rparr> 5 10 True
     = Inr \<lparr>BitAllocatorInstance = [0x7FE0, 0], NumBits = 40, MaxBits = 64\<rparr>"
  by (simp add: TBitArray_SetRange_def NUM_BITS_PER_DWORD_def modify_dword_def
      TBitArray_GetData_def Let_def)

lemma scenario_bits:
  "map (\<lambda>i. TBitArray_operator_index
               \<lparr>BitAllocatorInstance = [0x7FE0, 0], NumBits = 40, MaxBits = 64\<rparr> (of_nat i))
     [0..<40]
   = replicate 5 (Inr False) @ replicate 10 (Inr True) @ replicate 25 (Inr False)"
  by code_simp

lemma scenario_Find:
  "TBitArray_Find sentinel \<lparr>BitAllocatorInstance = [0x7FE0, 0], NumBits = 40, MaxBits = 64\<rparr> True
     = Inr 5"
  by code_simp

lemma scenario_FindLast:
  "TBitArray_FindLast sentinel \<lparr>BitAllocatorInstance = [0x7FE0, 0], NumBits = 40, MaxBits = 64\<rparr> True
     = Inr 14"
  by code_simp

text \<open>
  Claim C5. A bit array constructed with 40 bits, all false, then \<open>SetRange(5, 10, true)\<close>:
  reading the bits 0 to 39 in order gives five times false, ten times true (the indices 5
  to 14) and 25 times false; \<open>Find(true)\<close> returns 5 and \<open>FindLast(true)\<close> returns 14.
  This holds for every allocator and every value of the sentinel.
\<close>

theorem SetRange_scenario_40_bits:
  "\<exists>a b. TBitArray_ctor al False 40 = Inr a
       \<and> TBitArray_SetRange a 5 10 True = Inr b
       \<and> map (\<lambda>i. TBitArray_operator_index b (of_nat i)) [0..<40]
           = replicate 5 (Inr False) @ replicate 10 (Inr True) @ replicate 25 (Inr False)
       \<and> TBitArray_Find sentinel b True = Inr 5
       \<and> TBitArray_FindLast sentinel b True = Inr 14"
  apply (intro exI conjI)
      apply (rule scenario_ctor)
     apply (rule scenario_SetRange)
    apply (rule scenario_bits)
   apply (rule scenario_Find)
  apply (rule scenario_FindLast)
  done

section \<open>Removing a suffix of a bit array\<close>

lemma unat_sum_eq: "unat (b :: uint32) + unat n = unat N \<Longrightarrow> b + n = N"
  by unat_arith

text \<open>
  Claim C10. When \<open>BaseIndex + NumBitsToRemove\<close> equals \<open>NumBits\<close>, \<open>RemoveAt\<close> returns
  the array with \<open>NumBits\<close> decreased by \<open>NumBitsToRemove\<close> and nothing else changed: the
  word buffer is the same, and every bit below the new \<open>NumBits\<close> reads as before.
\<close>

theorem RemoveAt_suffix_only_shrinks:
  assumes "unat BaseIndex + unat NumBitsToRemove = unat (NumBits arr)"
  shows "TBitArray_RemoveAt arr BaseIndex NumBitsToRemove
           = Inr (arr\<lparr>NumBits := NumBits arr - NumBitsToRemove\<rparr>)
       \<and> TBitArray_GetData (arr\<lparr>NumBits := NumBits arr - NumBitsToRemove\<rparr>) = TBitArray_GetData arr
       \<and> (\<forall>i. i < NumBits arr - NumBitsToRemove \<longrightarrow>
             TBitArray_operator_index (arr\<lparr>NumBits := NumBits arr - NumBitsToRemove\<rparr>) i
               = TBitArray_operator_index arr i)"
proof -
  have eq: "BaseIndex + NumBitsToRemove = NumBits arr"
    using assms by (rule unat_sum_eq)
  have le: "NumBits arr - NumBitsToRemove \<le> NumBits arr"
    using assms by unat_arith
  show ?thesis
    using le by (auto simp: TBitArray_RemoveAt_def eq TBitArray_GetData_def TBitArray_operator_index_def)
qed

theorem RemoveAt_suffix_only_shrinks_witness:
  "TBitArray_RemoveAt \<lparr>BitAllocatorInstance = [0x7FE0, 0], NumBits = 40, MaxBits = 64\<rparr> 30 10
     = Inr \<lparr>BitAllocatorInstance = [0x7FE0, 0], NumBits = 30, MaxBits = 64\<rparr>
   \<and> TBitArray_operator_index \<lparr>BitAllocatorInstance = [0x7FE0, 0], NumBits = 30, MaxBits = 64\<rparr> 7
     = TBitArray_operator_index \<lparr>BitAllocatorInstance = [0x7FE0, 0], NumBits = 40, MaxBits = 64\<rparr> 7"
  using RemoveAt_suffix_only_shrinks
    [of 30 10 "\<lparr>BitAllocatorInstance = [0x7FE0, 0], NumBits = 40, MaxBits = 64\<rparr>"]
  by simp

section \<open>Logical no-ops\<close>

text \<open>
  Claim C9, as stated, at a concrete input: \<open>SetRange\<close> with zero count on an empty bit
  array and index 1 does not return silently. Its range check \<open>Index + Num \<le> NumBits\<close>
  stands before the test of the count, and fails.
\<close>

theorem SetRange_zero_count_checks_index:
  "TBitArray_SetRange \<lparr>BitAllocatorInstance = [], NumBits = 0, MaxBits = 0\<rparr> 1 0 True
     = Inl CheckFailed"
  by (simp add: TBitArray_SetRange_def)

text \<open>
  Claim C9, amended. \<open>RemoveAtImpl\<close> with zero count returns the array unchanged, for
  every state and every index. \<open>SetRange\<close> with zero count returns the bit array unchanged
  when the index is at most \<open>NumBits\<close>, and fails its range check otherwise. \<open>Shrink\<close> on
  an array whose capacity equals its length (a length that is not negative) returns the array
  unchanged.
\<close>

theorem zero_count_and_minimal_are_no_ops:
  assumes "ArrayMax b = ArrayNum b" and "0 \<le> ArrayNum b"
  shows "RemoveAtImpl al tr a Idx 0 bAllowShrinking = Inr a
       \<and> TBitArray_SetRange arr BitIdx 0 bValue
           = (if BitIdx \<le> NumBits arr then Inr arr else Inl CheckFailed)
       \<and> TArray_Shrink b = Inr b"
  using assms
  by (simp add: RemoveAtImpl_def TBitArray_SetRange_def TArray_Shrink_def CheckInvariants_def)

theorem zero_count_and_minimal_are_no_ops_witness:
  "RemoveAtImpl example_allocator object_traits
       \<lparr>AllocatorInstance = [Some (1::int)], ArrayNum = 1, ArrayMax = 1\<rparr> 5 0 True
     = Inr \<lparr>AllocatorInstance = [Some 1], ArrayNum = 1, ArrayMax = 1\<rparr>
   \<and> TBitArray_SetRange \<lparr>BitAllocatorInstance = [0x7FE0, 0], NumBits = 40, MaxBits = 64\<rparr> 40 0 True
     = Inr \<lparr>BitAllocatorInstance = [0x7FE0, 0], NumBits = 40, MaxBits = 64\<rparr>
   \<and> TArray_Shrink \<lparr>AllocatorInstance = [Some (1::int)], ArrayNum = 1, ArrayMax = 1\<rparr>
     = Inr \<lparr>AllocatorInstance = [Some 1], ArrayNum = 1, ArrayMax = 1\<rparr>"
  using zero_count_and_minimal_are_no_ops
    [of "\<lparr>AllocatorInstance = [Some (1::int)], ArrayNum = 1, ArrayMax = 1\<rparr>"
        example_allocator object_traits
        "\<lparr>AllocatorInstance = [Some (1::int)], ArrayNum = 1, ArrayMax = 1\<rparr>" 5 True
        "\<lparr>BitAllocatorInstance = [0x7FE0, 0], NumBits = 40, MaxBits = 64\<rparr>" 40 True]
  by simp

section \<open>Equality of arrays\<close>

lemma CompareItems_loop_live:
  "n \<le> length A \<Longrightarrow> n \<le> length B \<Longrightarrow> None \<notin> set (take n A) \<Longrightarrow> None \<notin> set (take n B)
     \<Longrightarrow> CompareItems_loop A B n = Inr (take n A = take n B)"
proof (induction n arbitrary: A B)
  case 0
  then show ?case by simp
next
  case (Suc n)
  from Suc.prems obtain a A' b B' where ab: "A = a # A'" "B = b # B'"
    by (cases A; cases B) auto
  with Suc.prems obtain x y where "a = Some x" "b = Some y"
    by (cases a; cases b) auto
  with ab have AB: "A = Some x # A'" "B = Some y # B'"
    by simp_all
  with Suc.prems have "CompareItems_loop A' B' n = Inr (take n A' = take n B')"
    by (intro Suc.IH) auto
  with AB show ?case by auto
qed

text \<open>
  Were the count that \<^verbatim>\<open>operator==\<close> passes on the length of the array, the operator
  would compare the two live ranges element by element (here for a type that is not
  bytewise comparable).
\<close>

lemma operator_eq_with_Count_Num:
  assumes "\<not> IsBytewiseComparable tr" "0 \<le> ArrayNum a"
    and "nat (ArrayNum a) \<le> length (AllocatorInstance a)"
    and "nat (ArrayNum a) \<le> length (AllocatorInstance b)"
    and "None \<notin> set (take (nat (ArrayNum a)) (AllocatorInstance a))"
    and "None \<notin> set (take (nat (ArrayNum a)) (AllocatorInstance b))"
  shows "TArray_operator_eq tr (TArray_Num a) a b
     = Inr (ArrayNum a = ArrayNum b
            \<and> take (nat (ArrayNum a)) (AllocatorInstance a) = take (nat (ArrayNum a)) (AllocatorInstance b))"
  using assms CompareItems_loop_live [of "nat (ArrayNum a)" "AllocatorInstance a" "AllocatorInstance b"]
  by (auto simp: TArray_operator_eq_def TArray_Num_def CompareItems_def TArray_GetData_def)

text \<open>
  Claim C6. The claim asks \<^verbatim>\<open>operator==\<close> to compare as many elements as the arrays are
  long. The source compares \<^verbatim>\<open>Count\<close> elements, a name the operator does not declare.
  Where \<^verbatim>\<open>Count\<close> is 0, the arrays \<open>[1]\<close> and \<open>[2]\<close> compare equal, for a bytewise
  comparable element type and for any other.
\<close>

theorem operator_eq_with_Count_zero:
  "TArray_operator_eq tr 0 \<lparr>AllocatorInstance = [Some (1::int)], ArrayNum = 1, ArrayMax = 1\<rparr>
      \<lparr>AllocatorInstance = [Some 2], ArrayNum = 1, ArrayMax = 1\<rparr> = Inr True"
  by (simp add: TArray_operator_eq_def TArray_Num_def CompareItems_def Memcmp_equal_def)

section \<open>Insert followed by RemoveAt\<close>

text \<open>
  Claim C3, at a concrete input. For an element type that is not bitwise relocatable,
  \<open>Insert(3, 0)\<close> into the array \<open>[1, 2]\<close> moves the tail with the upward loop of
  \<open>RelocateConstructItems\<close>: the element 1 is copied over the element 2 before that one is
  read, and the slot in between is left destroyed. \<open>RemoveAt(0)\<close> then yields an array of
  length 2 whose slots are a destroyed object and 1, not \<open>[1, 2]\<close>.
\<close>

theorem Insert_RemoveAt_not_bitwise_relocatable:
  "TArray_Insert example_allocator object_traits
      \<lparr>AllocatorInstance = [Some 1, Some 2], ArrayNum = 2, ArrayMax = 2\<rparr> (Outside 3) 0
     = Inr (\<lparr>AllocatorInstance = [Some 3, None, Some 1, None, None, None],
              ArrayNum = 3, ArrayMax = 6\<rparr>, 0)
   \<and> TArray_RemoveAt example_allocator object_traits
        \<lparr>AllocatorInstance = [Some 3, None, Some 1, None, None, None], ArrayNum = 3, ArrayMax = 6\<rparr> 0
     = Inr \<lparr>AllocatorInstance = [None, Some 1], ArrayNum = 2, ArrayMax = 2\<rparr>"
  by code_simp

section \<open>Add\<close>

lemma length_ResizeAllocation [simp]: "length (ResizeAllocation fresh Data p n) = n"
  by (simp add: ResizeAllocation_def)

lemma nth_ResizeAllocation:
  "i < n \<Longrightarrow> ResizeAllocation fresh Data p n ! i
     = (if i < min p n \<and> i < length Data then Data ! i else fresh i)"
  by (simp add: ResizeAllocation_def)

text \<open>
  Claim C2. On an array that satisfies \<open>CheckInvariants\<close> and whose allocation has
  \<open>ArrayMax\<close> slots, with a growth policy that returns at least the count it is asked
  for, \<open>Add(x)\<close> returns the length before the call; the length grows by one; the capacity
  is the one the growth policy computes when the new length exceeds the old capacity, and is
  unchanged otherwise; and reading at the returned index yields \<open>x\<close>.
\<close>

theorem Add_returns_index_of_stored_item:
  assumes inv: "CheckInvariants a"
    and alloc: "length (AllocatorInstance a) = nat (ArrayMax a)"
    and grow: "ArrayMax a < ArrayNum a + 1 \<Longrightarrow>
                 ArrayNum a + 1 \<le> CalculateSlackGrow al (ArrayNum a + 1) (ArrayMax a) (SizeOf tr)"
  shows "\<exists>a'. TArray_Add al tr a (Outside x) = Inr (a', ArrayNum a)
            \<and> ArrayNum a' = ArrayNum a + 1
            \<and> ArrayMax a' = (if ArrayNum a + 1 > ArrayMax a
                              then CalculateSlackGrow al (ArrayNum a + 1) (ArrayMax a) (SizeOf tr)
                              else ArrayMax a)
            \<and> TArray_operator_index al a' (ArrayNum a) = Inr x"
proof (cases "ArrayMax a < ArrayNum a + 1")
  case True
  with grow have "ArrayNum a + 1 \<le> CalculateSlackGrow al (ArrayNum a + 1) (ArrayMax a) (SizeOf tr)"
    by simp
  with True inv show ?thesis
    by (simp add: TArray_Add_def CheckAddress_def TArray_Emplace_def AddUninitialized_def
        CheckInvariants_def ResizeGrow_def Let_def read_item_def construct_at_def
        TArray_GetData_def TArray_operator_index_def RangeCheck_def read_slot_def)
next
  case False
  with inv alloc show ?thesis
    by (simp add: TArray_Add_def CheckAddress_def TArray_Emplace_def AddUninitialized_def
        CheckInvariants_def Let_def read_item_def construct_at_def
        TArray_GetData_def TArray_operator_index_def RangeCheck_def read_slot_def)
qed

theorem Add_returns_index_of_stored_item_witness:
  "\<exists>a'. TArray_Add example_allocator int32_traits
            \<lparr>AllocatorInstance = [Some 1, Some 2], ArrayNum = 2, ArrayMax = 2\<rparr> (Outside 7)
            = Inr (a', 2)
        \<and> ArrayNum a' = 3 \<and> ArrayMax a' = 6
        \<and> TArray_operator_index example_allocator a' 2 = Inr 7"
  using Add_returns_index_of_stored_item
    [of "\<lparr>AllocatorInstance = [Some 1, Some 2], ArrayNum = 2, ArrayMax = 2\<rparr>"
        example_allocator int32_traits 7]
  by (simp add: CheckInvariants_def example_allocator_def int32_traits_def)


section \<open>The copying overload of MoveOrCopy\<close>

lemma ConstructItems_loop_copies:
  "s + n \<le> length Source \<Longrightarrow> d + n \<le> length Dest \<Longrightarrow> None \<notin> set (take n (drop s Source))
     \<Longrightarrow> ConstructItems_loop f Dest d Source s n
          = Inr (take d Dest @ map (map_option f) (take n (drop s Source)) @ drop (d + n) Dest)"
proof (induction n arbitrary: Dest d s)
  case 0
  then show ?case by simp
next
  case (Suc n)
  from Suc.prems have s: "s < length Source" and d: "d < length Dest"
    by simp_all
  from s have split: "drop s Source = Source ! s # drop (Suc s) Source"
    by (simp add: Cons_nth_drop_Suc)
  with Suc.prems obtain v where v: "Source ! s = Some v"
    by (cases "Source ! s") auto
  have "ConstructItems_loop f (Dest[d := Some (f v)]) (Suc d) Source (Suc s) n
          = Inr (take (Suc d) (Dest[d := Some (f v)])
                 @ map (map_option f) (take n (drop (Suc s) Source))
                 @ drop (Suc d + n) (Dest[d := Some (f v)]))"
    using Suc.prems split by (intro Suc.IH) auto
  moreover have "take (Suc d) (Dest[d := Some (f v)]) = take d Dest @ [Some (f v)]"
    using d by (simp add: take_Suc_conv_app_nth)
  ultimately show ?case
    using s d v split by simp
qed

lemma ConstructItems_copies:
  assumes "0 \<le> Count" "nat Count \<le> length Source" "nat Count \<le> length Dest"
    and "IsBitwiseConstructible ty \<or> None \<notin> set (take (nat Count) Source)"
  shows "ConstructItems ty Dest Source Count
           = Inr (map (map_option (Construct ty)) (take (nat Count) Source) @ drop (nat Count) Dest)"
  using assms ConstructItems_loop_copies [of 0 "nat Count" Source 0 Dest "Construct ty"]
  by (auto simp: ConstructItems_def Memcpy_def take_map)

text \<open>
  The body of the copying overload is the call of \<open>CopyToEmpty\<close>. On a source whose live
  range is constructed, \<open>CopyToEmpty\<close> returns a destination of the same length whose live
  range is the source's live range, element by element, through the converting copy
  constructor; the source is an argument that it only reads. \<open>PrevMax\<close> is the size of
  the destination's allocation before the call.
\<close>

lemma CopyToEmpty_copies:
  assumes num: "0 \<le> ArrayNum FromArray" "nat (ArrayNum FromArray) \<le> length (AllocatorInstance FromArray)"
    and live: "None \<notin> set (take (nat (ArrayNum FromArray)) (AllocatorInstance FromArray))"
    and prev: "length (AllocatorInstance ToArray) = nat PrevMax"
  shows "\<exists>ToArray'. CopyToEmpty ty ToArray (TArray_GetData FromArray) (TArray_Num FromArray) PrevMax 0
                       = Inr ToArray'
           \<and> ArrayNum ToArray' = ArrayNum FromArray
           \<and> ArrayMax ToArray' = ArrayNum FromArray
           \<and> take (nat (ArrayNum FromArray)) (AllocatorInstance ToArray')
               = map (map_option (Construct ty)) (take (nat (ArrayNum FromArray)) (AllocatorInstance FromArray))"
proof (cases "ArrayNum FromArray \<noteq> 0 \<or> PrevMax \<noteq> 0")
  case False
  then show ?thesis
    by (simp add: CopyToEmpty_def TArray_Num_def Let_def)
next
  case True
  let ?a2 = "ResizeForCopy (ToArray\<lparr>ArrayNum := ArrayNum FromArray\<rparr>) (ArrayNum FromArray) PrevMax"
  have len: "nat (ArrayNum FromArray) \<le> length (TArray_GetData ?a2)"
    using prev by (auto simp: ResizeForCopy_def TArray_GetData_def Let_def)
  have "ConstructItems ty (TArray_GetData ?a2) (AllocatorInstance FromArray) (ArrayNum FromArray)
          = Inr (map (map_option (Construct ty)) (take (nat (ArrayNum FromArray)) (AllocatorInstance FromArray))
                 @ drop (nat (ArrayNum FromArray)) (TArray_GetData ?a2))"
    using num live len by (intro ConstructItems_copies) auto
  with True num show ?thesis
    by (simp add: CopyToEmpty_def TArray_Num_def TArray_GetData_def Let_def ResizeForCopy_def)
qed

text \<open>
  Neither overload of \<open>MoveOrCopy\<close> can be instantiated for two arrays: the trait that both
  return types name reads \<^verbatim>\<open>FAllocator\<close> and \<^verbatim>\<open>FElementType\<close> as member types of
  \<^verbatim>\<open>TArray\<close>, which declares neither.
\<close>

lemma TCanMoveTArrayPointersBetweenArrayTypes_ill_formed:
  "TCanMoveTArrayPointersBetweenArrayTypes TArray_member_types TArray_member_types ty = None"
  by (simp add: TCanMoveTArrayPointersBetweenArrayTypes_def TArray_member_types_def)

lemma MoveOrCopy_ill_formed: "TArray_MoveOrCopy ty ToArray FromArray PrevMax = Inl IllFormed"
  by (simp add: TArray_MoveOrCopy_def TCanMoveTArrayPointersBetweenArrayTypes_ill_formed)

text \<open>
  Claim C8, at a concrete input: the move construction of an array from the array
  \<open>[1, 2]\<close> (capacity 3) of another allocator type, with the same element type. The claim
  says that the new array holds a copy \<open>[1, 2]\<close> and that the source is unmodified. The
  converting move constructor calls \<open>MoveOrCopy\<close>, whose copying overload is written to do
  that (\<open>CopyToEmpty_copies\<close>), but the overload cannot be instantiated: the construction
  has no result.
\<close>

theorem converting_move_ctor_is_ill_formed:
  "TArray_move_ctor
     \<lparr>AllocatorsEqual = False, ElementTypesEqual = True, IsBitwiseConstructible = False,
        Construct = (\<lambda>x :: int. x)\<rparr> 0 0
     \<lparr>AllocatorInstance = [Some 1, Some 2, None], ArrayNum = 2, ArrayMax = 3\<rparr>
   = Inl IllFormed"
  by (simp add: TArray_move_ctor_def MoveOrCopy_ill_formed)


section \<open>The moving overload of MoveOrCopy\<close>

text \<open>
  Bit arrays. Where the allocator supports the move (\<^verbatim>\<open>SupportsMove\<close>), the source of
  \<open>MoveOrCopy\<close>, of the move constructor and of a move assignment between two distinct
  objects is left in exactly the state of a default-constructed bit array: no buffer,
  \<open>NumBits = 0\<close> and \<open>MaxBits = 0\<close>. Every operation is a function of that state, so it
  behaves on the source as on a fresh bit array.
\<close>

lemma TBitArray_move_leaves_source_default_constructed:
  assumes sup: "SupportsMove al" and distinct: "this \<noteq> Other"
  shows "(\<exists>ToBits'. TBitArray_MoveOrCopy al ToBits FromBits
                       = Inr (ToBits', \<lparr>BitAllocatorInstance = [], NumBits = 0, MaxBits = 0\<rparr>))
       \<and> (\<exists>ToBits'. TBitArray_move_ctor al k0 l0 SourceBits
                       = Inr (ToBits', \<lparr>BitAllocatorInstance = [], NumBits = 0, MaxBits = 0\<rparr>))
       \<and> (\<exists>bst'. TBitArray_move_assign_at al bst this Other = Inr bst'
              \<and> bst' Other = \<lparr>BitAllocatorInstance = [], NumBits = 0, MaxBits = 0\<rparr>)
       \<and> TBitArray_ctor al False 0 = Inr \<lparr>BitAllocatorInstance = [], NumBits = 0, MaxBits = 0\<rparr>"
proof -
  have d: "\<exists>ToBits'. TBitArray_MoveOrCopy al ToBits FromBits
                       = Inr (ToBits', \<lparr>BitAllocatorInstance = [], NumBits = 0, MaxBits = 0\<rparr>)"
    using sup by (simp add: TBitArray_MoveOrCopy_def MoveToEmpty_def)
  have e: "\<exists>ToBits'. TBitArray_move_ctor al k0 l0 SourceBits
                       = Inr (ToBits', \<lparr>BitAllocatorInstance = [], NumBits = 0, MaxBits = 0\<rparr>)"
    using sup by (simp add: TBitArray_move_ctor_def TBitArray_MoveOrCopy_def MoveToEmpty_def)
  have f: "\<exists>bst'. TBitArray_move_assign_at al bst this Other = Inr bst'
              \<and> bst' Other = \<lparr>BitAllocatorInstance = [], NumBits = 0, MaxBits = 0\<rparr>"
    using sup distinct
    by (simp add: TBitArray_move_assign_at_def TBitArray_MoveOrCopy_def MoveToEmpty_def)
  have g: "TBitArray_ctor al False 0 = Inr \<lparr>BitAllocatorInstance = [], NumBits = 0, MaxBits = 0\<rparr>"
    by (simp add: TBitArray_ctor_def TBitArray_Init_def TBitArray_Empty_def DivideAndRoundUp_def
        NUM_BITS_PER_DWORD_def Let_def)
  show ?thesis
    using d e f g by simp
qed

lemma TBitArray_move_assign_example:
  "\<exists>bst'. TBitArray_move_assign_at example_allocator
             ((\<lambda>p. \<lparr>BitAllocatorInstance = [], NumBits = 0, MaxBits = 0\<rparr>)
                (1 := \<lparr>BitAllocatorInstance = [0x7FE0, 0], NumBits = 40, MaxBits = 64\<rparr>))
             0 1 = Inr bst'
         \<and> bst' 1 = \<lparr>BitAllocatorInstance = [], NumBits = 0, MaxBits = 0\<rparr>"
proof -
  have sup: "SupportsMove example_allocator"
    by (simp add: example_allocator_def)
  have distinct: "(0::nat) \<noteq> 1"
    by simp
  from TBitArray_move_leaves_source_default_constructed [OF sup distinct] show ?thesis
    by (rule conjunct2 [THEN conjunct2, THEN conjunct1])
qed

text \<open>
  Arrays. The move assignment names \<open>MoveOrCopy\<close>, so it cannot be instantiated either.
\<close>

lemma move_assign_ill_formed: "TArray_move_assign_at tr st this Other = Inl IllFormed"
  by (simp add: TArray_move_assign_at_def TCanMoveTArrayPointersBetweenArrayTypes_ill_formed)

text \<open>
  Claim C7, at a concrete input: the move construction of an array from the array \<open>[1, 2]\<close>
  of its own type, and the move assignment of that array to an empty array at another
  address. The claim says that the source is left with length 0 and capacity 0. The moving
  overload of \<open>MoveOrCopy\<close> is written to do that, as its counterpart for bit arrays does
  (\<open>TBitArray_move_leaves_source_default_constructed\<close>), but neither the move constructor
  nor the move assignment of an array can be instantiated: the two moves have no result.
\<close>

theorem move_of_array_is_ill_formed:
  "TArray_move_ctor (same_type :: (int, int) FArrayTypes) 0 0
     \<lparr>AllocatorInstance = [Some 1, Some 2], ArrayNum = 2, ArrayMax = 2\<rparr>
   = Inl IllFormed
   \<and> TArray_move_assign_at int32_traits
       ((\<lambda>p. TArray_ctor)(1 := \<lparr>AllocatorInstance = [Some 1, Some 2], ArrayNum = 2, ArrayMax = 2\<rparr>))
       0 1
     = Inl IllFormed"
  by (simp add: TArray_move_ctor_def MoveOrCopy_ill_formed move_assign_ill_formed)

section \<open>Compaction by RemoveAt\<close>

text \<open>
  \<open>bit_of Data i\<close> is bit \<open>i\<close> of the buffer. \<open>it_at It i\<close>: the iterator stands at index
  \<open>i\<close>, with the word index and the mask that belong to it.
\<close>

definition bit_of :: "uint32 list \<Rightarrow> nat \<Rightarrow> bool" where
  "bit_of Data i = bit (Data ! (i div 32)) (i mod 32)"

definition it_at :: "FIterator \<Rightarrow> nat \<Rightarrow> bool" where
  "it_at It i = (unat (Index It) = i \<and> unat (DwordIndex It) = i div 32
                 \<and> Mask It = push_bit (i mod 32) 1)"

lemma and_31_eq_mod: "(x :: uint32) AND 31 = x mod 32"
proof -
  have "x AND mask 5 = x mod 2 ^ 5"
    by (simp flip: take_bit_eq_mask add: take_bit_eq_mod)
  then show ?thesis
    by (simp add: mask_eq_exp_minus_1)
qed

lemma it_at_ctor: "it_at (FIterator_ctor 0) 0"
  by (simp add: it_at_def FIterator_ctor_def)

lemma push_bit_1_eq_0_iff: "(push_bit k 1 :: uint32) = 0 \<longleftrightarrow> 32 \<le> k"
  by (simp add: push_bit_of_1 exp_eq_zero_iff)

lemma unat_plus_one: "Suc (unat (x :: uint32)) < 2 ^ 32 \<Longrightarrow> unat (x + 1) = Suc (unat x)"
  using unat_add_lem [of x 1] by simp

lemma Mask_FIterator_incr:
  "Mask (FIterator_incr It) = (if push_bit 1 (Mask It) = 0 then 1 else push_bit 1 (Mask It))"
  by (simp add: FIterator_incr_def Let_def)

lemma DwordIndex_FIterator_incr:
  "DwordIndex (FIterator_incr It)
     = (if push_bit 1 (Mask It) = 0 then DwordIndex It + 1 else DwordIndex It)"
  by (simp add: FIterator_incr_def Let_def)

lemma it_at_incr:
  assumes "it_at It i" and "Suc i < 2 ^ 32"
  shows "it_at (FIterator_incr It) (Suc i)"
proof -
  from assms have idx: "unat (Index (FIterator_incr It)) = Suc i"
    by (simp add: it_at_def unat_plus_one Index_FIterator_incr)
  have lt: "i mod 32 < 32"
    by simp
  from assms have "push_bit 1 (Mask It) = (push_bit (Suc (i mod 32)) 1 :: uint32)"
    by (simp only: it_at_def push_bit_push_bit) simp
  then have mask: "push_bit 1 (Mask It) = (push_bit (Suc (i mod 32)) 1 :: uint32)"
    and zero: "push_bit 1 (Mask It) = 0 \<longleftrightarrow> i mod 32 = 31"
    using lt by (simp_all only: push_bit_1_eq_0_iff) arith
  show ?thesis
  proof (cases "i mod 32 = 31")
    case True
    then have arith: "Suc i mod 32 = 0" "Suc i div 32 = Suc (i div 32)"
      by (simp_all add: mod_Suc div_Suc)
    from assms have "Suc (unat (DwordIndex It)) < 2 ^ 32"
      by (simp add: it_at_def)
    with assms have "unat (DwordIndex It + 1) = Suc (i div 32)"
      by (simp add: it_at_def unat_plus_one)
    with True zero arith idx show ?thesis
      by (simp only: it_at_def Mask_FIterator_incr DwordIndex_FIterator_incr) simp
  next
    case False
    then have arith: "Suc i mod 32 = Suc (i mod 32)" "Suc i div 32 = i div 32"
      by (simp_all add: mod_Suc div_Suc)
    from assms have "unat (DwordIndex It) = i div 32"
      by (simp add: it_at_def)
    with False zero mask arith idx show ?thesis
      by (simp only: it_at_def Mask_FIterator_incr DwordIndex_FIterator_incr) simp
  qed
qed

lemma GetValue_it_at:
  "it_at It i \<Longrightarrow> i div 32 < length Data \<Longrightarrow> FIterator_GetValue Data It = Inr (bit_of Data i)"
  by (simp add: it_at_def FIterator_GetValue_def BitReference_read_def bit_of_def
      bit_iff_and_push_bit_not_eq_0)

lemma same_div_mod: "j div 32 = w div 32 \<Longrightarrow> j mod 32 = w mod 32 \<Longrightarrow> (j :: nat) = w"
  by (metis div_mult_mod_eq)

lemma bit_assign_word:
  "m < 32 \<Longrightarrow> k < 32 \<Longrightarrow>
     bit (if b then (x :: uint32) OR push_bit k 1 else x AND NOT (push_bit k 1)) m
       = (if m = k then b else bit x m)"
  by (auto simp: bit_simps)

lemma SetValue_it_at:
  assumes "it_at It w" and "w div 32 < length Data"
  shows "\<exists>Data'. FIterator_SetValue Data It b = Inr Data' \<and> length Data' = length Data
           \<and> (\<forall>j. j div 32 < length Data \<longrightarrow> bit_of Data' j = (if j = w then b else bit_of Data j))"
proof -
  let ?new = "if b then (Data ! (w div 32)) OR push_bit (w mod 32) 1
              else (Data ! (w div 32)) AND NOT (push_bit (w mod 32) 1)"
  have set: "FIterator_SetValue Data It b = Inr (Data[w div 32 := ?new])"
    using assms by (simp add: it_at_def FIterator_SetValue_def BitReference_assign_def)
  have "bit_of (Data[w div 32 := ?new]) j = (if j = w then b else bit_of Data j)"
    if "j div 32 < length Data" for j
  proof (cases "j div 32 = w div 32")
    case True
    then have "bit_of (Data[w div 32 := ?new]) j = bit ?new (j mod 32)"
      using assms by (simp add: bit_of_def)
    also have "\<dots> = (if j mod 32 = w mod 32 then b else bit (Data ! (w div 32)) (j mod 32))"
      by (rule bit_assign_word) simp_all
    also have "\<dots> = (if j = w then b else bit_of Data j)"
      using True same_div_mod [of j w] by (auto simp: bit_of_def)
    finally show ?thesis .
  next
    case False
    then show ?thesis
      by (auto simp: bit_of_def)
  qed
  with set show ?thesis
    by simp
qed

lemma operator_index_bit_of:
  assumes "Idx < NumBits arr" and "unat Idx div 32 < length (BitAllocatorInstance arr)"
  shows "TBitArray_operator_index arr Idx = Inr (bit_of (BitAllocatorInstance arr) (unat Idx))"
  using assms
  by (simp add: TBitArray_operator_index_def NUM_BITS_PER_DWORD_def BitReference_read_def
      TBitArray_GetData_def bit_of_def and_31_eq_mod unat_div unat_mod
      bit_iff_and_push_bit_not_eq_0)


lemma div32_in: "x < n \<Longrightarrow> n \<le> 32 * L \<Longrightarrow> x div 32 < (L :: nat)"
  by arith

text \<open>
  While \<open>ReadIt\<close> stands at index \<open>r\<close>, \<open>WriteIt\<close> stands at \<open>write_pos b c r\<close>; the bit
  written at index \<open>j\<close> comes from index \<open>source_of b c j\<close>.
\<close>

definition write_pos :: "nat \<Rightarrow> nat \<Rightarrow> nat \<Rightarrow> nat" where
  "write_pos b c r = (if r \<le> b then r else if r \<le> b + c then b else r - c)"

definition source_of :: "nat \<Rightarrow> nat \<Rightarrow> nat \<Rightarrow> nat" where
  "source_of b c j = (if j < b then j else j + c)"

lemma RemoveAt_loop_compacts:
  assumes N: "unat N = n" and B: "unat BaseIndex = b" and C: "unat NumBitsToRemove = c"
    and range: "b + c \<le> n" and buf: "n \<le> 32 * length Data"
    and r: "r \<le> n" and rd: "it_at ReadIt r" and wr: "it_at WriteIt (write_pos b c r)"
  shows "\<exists>Data'. TBitArray_RemoveAt_loop N BaseIndex NumBitsToRemove Data WriteIt ReadIt = Inr Data'
           \<and> length Data' = length Data
           \<and> (\<forall>j<n - c. bit_of Data' j
                  = (if j < write_pos b c r then bit_of Data j else bit_of Data (source_of b c j)))"
  using buf r rd wr
proof (induction "n - r" arbitrary: r Data WriteIt ReadIt)
  case 0
  then have "r = n"
    by simp
  with 0 N have stop: "\<not> Index ReadIt < N"
    by (simp add: it_at_def word_less_nat_alt)
  have "j < write_pos b c n" if "j < n - c" for j
    using that range by (auto simp: write_pos_def)
  with stop \<open>r = n\<close> show ?case
    by (subst TBitArray_RemoveAt_loop.simps) simp
next
  case (Suc k)
  then have rn: "r < n"
    by simp
  have "unat N < 2 ^ LENGTH(32)"
    by (rule unsigned_less)
  with N have n32: "n < 2 ^ 32"
    by simp
  have sum: "unat (BaseIndex + NumBitsToRemove) = b + c"
    using B C range n32 unat_add_lem [of BaseIndex NumBitsToRemove] by simp
  from Suc.prems N rn have go: "Index ReadIt < N"
    by (simp add: it_at_def word_less_nat_alt)
  from Suc.prems B sum
  have keep: "(Index ReadIt < BaseIndex \<or> Index ReadIt \<ge> BaseIndex + NumBitsToRemove)
                \<longleftrightarrow> (r < b \<or> b + c \<le> r)"
    by (simp add: it_at_def word_less_nat_alt word_le_nat_alt)
  from Suc.prems have same: "Index WriteIt \<noteq> Index ReadIt \<longleftrightarrow> write_pos b c r \<noteq> r"
    by (simp add: it_at_def word_unat_eq_iff)
  have rd': "it_at (FIterator_incr ReadIt) (Suc r)"
    using Suc.prems rn n32 by (intro it_at_incr) simp_all
  have k: "k = n - Suc r"
    using Suc.hyps by simp
  have wle: "write_pos b c r \<le> r"
    by (simp add: write_pos_def)
  have rin: "r div 32 < length Data"
    using rn Suc.prems by simp
  then have win: "write_pos b c r div 32 < length Data"
    using wle by (meson div_le_mono le_less_trans)
  show ?case
  proof (cases "r < b \<or> b + c \<le> r")
    case False
    then have wp: "write_pos b c (Suc r) = write_pos b c r"
      by (auto simp: write_pos_def)
    have "\<exists>Data'. TBitArray_RemoveAt_loop N BaseIndex NumBitsToRemove Data WriteIt (FIterator_incr ReadIt)
                     = Inr Data'
            \<and> length Data' = length Data
            \<and> (\<forall>j<n - c. bit_of Data' j
                  = (if j < write_pos b c (Suc r) then bit_of Data j else bit_of Data (source_of b c j)))"
      using k Suc.prems rn rd' wp by (intro Suc.hyps(1)) simp_all
    with False go keep wp show ?thesis
      by (subst TBitArray_RemoveAt_loop.simps) simp
  next
    case True
    then have wp: "write_pos b c (Suc r) = Suc (write_pos b c r)"
      by (auto simp: write_pos_def)
    have src: "source_of b c (write_pos b c r) = r"
      using True by (auto simp: write_pos_def source_of_def)
    have wr': "it_at (FIterator_incr WriteIt) (write_pos b c (Suc r))"
      unfolding wp using Suc.prems wle rn n32 by (intro it_at_incr) simp_all
    show ?thesis
    proof (cases "write_pos b c r = r")
      case eq: True
      have "\<exists>Data'. TBitArray_RemoveAt_loop N BaseIndex NumBitsToRemove Data
                        (FIterator_incr WriteIt) (FIterator_incr ReadIt) = Inr Data'
              \<and> length Data' = length Data
              \<and> (\<forall>j<n - c. bit_of Data' j
                    = (if j < write_pos b c (Suc r) then bit_of Data j else bit_of Data (source_of b c j)))"
        using k Suc.prems rn rd' wr' by (intro Suc.hyps(1)) simp_all
      then obtain Data' where
        run: "TBitArray_RemoveAt_loop N BaseIndex NumBitsToRemove Data
                (FIterator_incr WriteIt) (FIterator_incr ReadIt) = Inr Data'"
        and len: "length Data' = length Data"
        and bits: "\<forall>j<n - c. bit_of Data' j
                    = (if j < Suc (write_pos b c r) then bit_of Data j else bit_of Data (source_of b c j))"
        unfolding wp by blast
      have "bit_of Data' j
              = (if j < write_pos b c r then bit_of Data j else bit_of Data (source_of b c j))"
        if "j < n - c" for j
        using bits that src eq by (cases "j = write_pos b c r") (auto simp: less_Suc_eq)
      with run len True go keep same eq show ?thesis
        by (subst TBitArray_RemoveAt_loop.simps) simp
    next
      case neq: False
      have get: "FIterator_GetValue Data ReadIt = Inr (bit_of Data r)"
        using Suc.prems rin by (intro GetValue_it_at) simp_all
      from SetValue_it_at [of WriteIt "write_pos b c r" Data "bit_of Data r"] Suc.prems win
      obtain Data1 where
        set: "FIterator_SetValue Data WriteIt (bit_of Data r) = Inr Data1"
        and len1: "length Data1 = length Data"
        and bits1: "\<forall>j. j div 32 < length Data \<longrightarrow>
                      bit_of Data1 j = (if j = write_pos b c r then bit_of Data r else bit_of Data j)"
        by blast
      have "\<exists>Data'. TBitArray_RemoveAt_loop N BaseIndex NumBitsToRemove Data1
                        (FIterator_incr WriteIt) (FIterator_incr ReadIt) = Inr Data'
              \<and> length Data' = length Data1
              \<and> (\<forall>j<n - c. bit_of Data' j
                    = (if j < write_pos b c (Suc r) then bit_of Data1 j else bit_of Data1 (source_of b c j)))"
        using k Suc.prems rn rd' wr' len1 by (intro Suc.hyps(1)) simp_all
      then obtain Data' where
        run: "TBitArray_RemoveAt_loop N BaseIndex NumBitsToRemove Data1
                (FIterator_incr WriteIt) (FIterator_incr ReadIt) = Inr Data'"
        and len: "length Data' = length Data1"
        and bits: "\<forall>j<n - c. bit_of Data' j
                    = (if j < Suc (write_pos b c r) then bit_of Data1 j else bit_of Data1 (source_of b c j))"
        unfolding wp by blast
      have "bit_of Data' j
              = (if j < write_pos b c r then bit_of Data j else bit_of Data (source_of b c j))"
        if j: "j < n - c" for j
      proof -
        from j Suc.prems have jin: "j div 32 < length Data"
          by simp
        from j have "source_of b c j < n"
          by (auto simp: source_of_def)
        with Suc.prems have sin: "source_of b c j div 32 < length Data"
          by (intro div32_in)
        have sge: "j \<le> source_of b c j"
          by (simp add: source_of_def)
        show ?thesis
        proof (cases "j < Suc (write_pos b c r)")
          case True
          with bits j jin bits1 src show ?thesis
            by (cases "j = write_pos b c r") (auto simp: less_Suc_eq)
        next
          case False
          with sge have "source_of b c j \<noteq> write_pos b c r"
            by simp
          with False bits j sin bits1 show ?thesis
            by simp
        qed
      qed
      with run len len1 True go keep same neq get set show ?thesis
        by (subst TBitArray_RemoveAt_loop.simps) simp
    qed
  qed
qed


text \<open>
  Claim C4. For \<open>BaseIndex + NumBitsToRemove \<le> NumBits\<close> (as numbers), on a bit array
  whose buffer covers \<open>NumBits\<close> bits, \<open>RemoveAt\<close> returns; \<open>NumBits\<close> has decreased by
  \<open>NumBitsToRemove\<close>; every bit at an index below \<open>BaseIndex\<close> reads as before; and every
  bit at an index \<open>i\<close> from \<open>BaseIndex\<close> up to the new \<open>NumBits\<close> reads as bit
  \<open>i + NumBitsToRemove\<close> did before.
\<close>

theorem RemoveAt_compacts_surviving_bits:
  assumes range: "unat BaseIndex + unat NumBitsToRemove \<le> unat (NumBits arr)"
    and buf: "unat (NumBits arr) \<le> 32 * length (BitAllocatorInstance arr)"
  shows "\<exists>arr'. TBitArray_RemoveAt arr BaseIndex NumBitsToRemove = Inr arr'
           \<and> NumBits arr' = NumBits arr - NumBitsToRemove
           \<and> (\<forall>i. i < BaseIndex \<longrightarrow>
                  (\<exists>v. TBitArray_operator_index arr' i = Inr v
                      \<and> TBitArray_operator_index arr i = Inr v))
           \<and> (\<forall>i. BaseIndex \<le> i \<and> i < NumBits arr - NumBitsToRemove \<longrightarrow>
                  (\<exists>v. TBitArray_operator_index arr' i = Inr v
                      \<and> TBitArray_operator_index arr (i + NumBitsToRemove) = Inr v))"
proof -
  define n b c where "n = unat (NumBits arr)" and "b = unat BaseIndex" and "c = unat NumBitsToRemove"
  let ?Data = "BitAllocatorInstance arr"
  have "unat (NumBits arr) < 2 ^ LENGTH(32)"
    by (rule unsigned_less)
  then have n32: "n < 2 ^ 32"
    by (simp add: n_def b_def c_def)
  have bcn: "b + c \<le> n" and nbuf: "n \<le> 32 * length ?Data"
    using range buf by (simp_all add: n_def b_def c_def)
  have sum: "unat (BaseIndex + NumBitsToRemove) = b + c"
  proof -
    from bcn n32 have "unat BaseIndex + unat NumBitsToRemove < 2 ^ LENGTH(32)"
      by (simp add: b_def c_def)
    then show ?thesis
      unfolding b_def c_def by (rule unat_add_lem [THEN iffD1])
  qed
  then have check: "BaseIndex + NumBitsToRemove \<le> NumBits arr"
    using bcn by (simp add: word_le_nat_alt n_def b_def c_def)
  have "NumBitsToRemove \<le> NumBits arr"
    using bcn by (simp add: word_le_nat_alt n_def b_def c_def)
  then have new: "unat (NumBits arr - NumBitsToRemove) = n - c"
    by (simp add: unat_sub n_def b_def c_def)
  have suffix: "BaseIndex + NumBitsToRemove = NumBits arr \<longleftrightarrow> b + c = n"
    using sum by (simp add: word_unat_eq_iff n_def b_def c_def)
  have old: "TBitArray_operator_index arr i = Inr (bit_of ?Data (unat i))" if "unat i < n" for i
  proof -
    from that have "i < NumBits arr"
      by (simp add: word_less_nat_alt n_def b_def c_def)
    moreover from that nbuf have "unat i div 32 < length ?Data"
      by (rule div32_in)
    ultimately show ?thesis
      by (rule operator_index_bit_of)
  qed
  have shifted: "unat (i + NumBitsToRemove) = unat i + c" if "unat i < n - c" for i
  proof -
    from that n32 have "unat i + unat NumBitsToRemove < 2 ^ LENGTH(32)"
      by (simp add: c_def)
    then show ?thesis
      unfolding c_def by (rule unat_add_lem [THEN iffD1])
  qed
  show ?thesis
  proof (cases "b + c = n")
    case True
    let ?arr' = "arr\<lparr>NumBits := NumBits arr - NumBitsToRemove\<rparr>"
    have run: "TBitArray_RemoveAt arr BaseIndex NumBitsToRemove = Inr ?arr'"
      using check suffix True by (simp add: TBitArray_RemoveAt_def)
    have below: "TBitArray_operator_index ?arr' i = Inr (bit_of ?Data (unat i))"
      if "unat i < n - c" for i
    proof -
      from that new have "i < NumBits ?arr'"
        by (simp add: word_less_nat_alt)
      moreover from that nbuf have "unat i div 32 < length (BitAllocatorInstance ?arr')"
        by (intro div32_in [of _ n]) simp_all
      ultimately show ?thesis
        using operator_index_bit_of [of i ?arr'] by simp
    qed
    have "\<exists>v. TBitArray_operator_index ?arr' i = Inr v \<and> TBitArray_operator_index arr i = Inr v"
      if "i < BaseIndex" for i
    proof -
      from that have "unat i < b"
        by (simp add: word_less_nat_alt n_def b_def c_def)
      with True below [of i] old [of i] show ?thesis
        by simp
    qed
    moreover have "\<not> (BaseIndex \<le> i \<and> i < NumBits arr - NumBitsToRemove)" for i
    proof -
      from True have "n - c = b"
        by simp
      then show ?thesis
        by (simp add: word_less_nat_alt word_le_nat_alt new flip: b_def)
    qed
    ultimately show ?thesis
      using run by (intro exI [of _ ?arr']) auto
  next
    case False
    from RemoveAt_loop_compacts
           [of "NumBits arr" n BaseIndex b NumBitsToRemove c ?Data 0 "FIterator_ctor 0" "FIterator_ctor 0"]
         bcn nbuf it_at_ctor
    obtain Data' where
      loop: "TBitArray_RemoveAt_loop (NumBits arr) BaseIndex NumBitsToRemove ?Data
               (FIterator_ctor 0) (FIterator_ctor 0) = Inr Data'"
      and len: "length Data' = length ?Data"
      and bits: "\<forall>j<n - c. bit_of Data' j = bit_of ?Data (source_of b c j)"
      by (auto simp: n_def b_def c_def write_pos_def)
    let ?arr' = "arr\<lparr>BitAllocatorInstance := Data', NumBits := NumBits arr - NumBitsToRemove\<rparr>"
    have run: "TBitArray_RemoveAt arr BaseIndex NumBitsToRemove = Inr ?arr'"
      using check suffix False loop
      by (simp add: TBitArray_RemoveAt_def TBitArray_Num_def TBitArray_GetData_def)
    have below: "TBitArray_operator_index ?arr' i = Inr (bit_of ?Data (source_of b c (unat i)))"
      if "unat i < n - c" for i
    proof -
      from that new have "i < NumBits ?arr'"
        by (simp add: word_less_nat_alt)
      moreover from that nbuf len have "unat i div 32 < length (BitAllocatorInstance ?arr')"
        by (intro div32_in [of _ n]) simp_all
      ultimately have "TBitArray_operator_index ?arr' i = Inr (bit_of Data' (unat i))"
        using operator_index_bit_of [of i ?arr'] by simp
      with bits that show ?thesis
        by simp
    qed
    have "\<exists>v. TBitArray_operator_index ?arr' i = Inr v \<and> TBitArray_operator_index arr i = Inr v"
      if "i < BaseIndex" for i
    proof -
      from that have ib: "unat i < b"
        by (simp add: word_less_nat_alt n_def b_def c_def)
      with bcn have "unat i < n - c" "unat i < n"
        by simp_all
      with ib below [of i] old [of i] show ?thesis
        by (simp add: source_of_def)
    qed
    moreover
    have "\<exists>v. TBitArray_operator_index ?arr' i = Inr v
             \<and> TBitArray_operator_index arr (i + NumBitsToRemove) = Inr v"
      if "BaseIndex \<le> i \<and> i < NumBits arr - NumBitsToRemove" for i
    proof -
      from that new have ib: "b \<le> unat i" and inc: "unat i < n - c"
        by (simp_all add: word_less_nat_alt word_le_nat_alt n_def b_def c_def)
      from inc have "unat (i + NumBitsToRemove) = unat i + c"
        by (rule shifted)
      moreover from inc have "unat i + c < n"
        by simp
      ultimately have "TBitArray_operator_index arr (i + NumBitsToRemove)
                         = Inr (bit_of ?Data (unat i + c))"
        using old [of "i + NumBitsToRemove"] by simp
      with ib inc below [of i] show ?thesis
        by (simp add: source_of_def)
    qed
    ultimately show ?thesis
      using run by (intro exI [of _ ?arr']) auto
  qed
qed

theorem RemoveAt_compacts_surviving_bits_witness:
  "\<exists>arr'. TBitArray_RemoveAt \<lparr>BitAllocatorInstance = [0x7FE0, 0], NumBits = 40, MaxBits = 64\<rparr> 3 4
            = Inr arr'
        \<and> NumBits arr' = 36
        \<and> TBitArray_operator_index arr' 2 = Inr False
        \<and> TBitArray_operator_index arr' 3 = Inr True
        \<and> TBitArray_operator_index arr' 10 = Inr True
        \<and> TBitArray_operator_index arr' 11 = Inr False"
proof -
  let ?arr = "\<lparr>BitAllocatorInstance = [0x7FE0, 0], NumBits = 40, MaxBits = 64\<rparr>"
  have old: "TBitArray_operator_index ?arr 2 = Inr False" "TBitArray_operator_index ?arr 7 = Inr True"
    "TBitArray_operator_index ?arr 14 = Inr True" "TBitArray_operator_index ?arr 15 = Inr False"
    by code_simp+
  from RemoveAt_compacts_surviving_bits [of 3 4 ?arr]
  obtain arr' where run: "TBitArray_RemoveAt ?arr 3 4 = Inr arr'"
    and num: "NumBits arr' = 36"
    and low: "\<forall>i. i < 3 \<longrightarrow> (\<exists>v. TBitArray_operator_index arr' i = Inr v
                                  \<and> TBitArray_operator_index ?arr i = Inr v)"
    and high: "\<forall>i. 3 \<le> i \<and> i < 36 \<longrightarrow> (\<exists>v. TBitArray_operator_index arr' i = Inr v
                                  \<and> TBitArray_operator_index ?arr (i + 4) = Inr v)"
    by auto
  from low [rule_format, of 2] high [rule_format, of 3] high [rule_format, of 10]
    high [rule_format, of 11] old
  have "TBitArray_operator_index arr' 2 = Inr False" "TBitArray_operator_index arr' 3 = Inr True"
    "TBitArray_operator_index arr' 10 = Inr True" "TBitArray_operator_index arr' 11 = Inr False"
    by auto
  with run num show ?thesis
    by blast
qed

section \<open>Sequences of mutating operations\<close>














subsection \<open>Arrays: every operation keeps the invariant\<close>















subsection \<open>Bit arrays: rounding up to whole words\<close>





subsection \<open>Bit arrays: every operation in range keeps the invariant\<close>























subsection \<open>The invariants over sequences of operations\<close>













end
